theory Spec2Isabelle
  imports Main "HOL-Library.AList"
begin

section \<open>JavaScript values held by a document\<close>

text \<open>
  A document is an untyped JSON-shaped value. Numbers are integers here (no claim
  depends on fractions). An object is the list of its own properties in the order
  JavaScript lists them (array-index keys first, ascending, then the other keys in
  the order of their creation); an array is the list of its elements together with
  any named (non-index) properties assigned to it. A hole of an array is read as
  \<open>undefined\<close>, so it is stored as \<open>JUndefined\<close>. Properties inherited from \<open>Object.prototype\<close> and
  \<open>Array.prototype\<close> (\<open>toString\<close>, \<open>constructor\<close>, \<open>__proto__\<close>, ...) are outside
  the model: selectors and keys are taken not to name them.
\<close>

datatype jsv =
    JUndefined
  | JNull
  | JBool bool
  | JNum int
  | JStr string
  | JArr "jsv list" "(string \<times> jsv) list"
  | JObj "(string \<times> jsv) list"

datatype js_error = TypeError | RangeError | SyntaxError | ReferenceError | Error string

text \<open>What a promise settles to.\<close>

datatype settled = Resolved jsv | Rejected js_error

text \<open>\<open>!!v\<close>, \<open>typeof v == "object"\<close> and \<open>Array.isArray(v)\<close>.\<close>

fun truthy :: "jsv \<Rightarrow> bool" where
  "truthy JUndefined = False"
| "truthy JNull = False"
| "truthy (JBool b) = b"
| "truthy (JNum n) = (n \<noteq> 0)"
| "truthy (JStr s) = (s \<noteq> [])"
| "truthy (JArr xs ps) = True"
| "truthy (JObj ps) = True"

fun typeofObject :: "jsv \<Rightarrow> bool" where
  "typeofObject JNull = True"
| "typeofObject (JArr xs ps) = True"
| "typeofObject (JObj ps) = True"
| "typeofObject v = False"

fun isArray :: "jsv \<Rightarrow> bool" where
  "isArray (JArr xs ps) = True"
| "isArray v = False"

text \<open>The values that have properties of their own to mutate: arrays and objects.\<close>

fun isContainer :: "jsv \<Rightarrow> bool" where
  "isContainer (JArr xs ps) = True"
| "isContainer (JObj ps) = True"
| "isContainer v = False"

subsection \<open>Property keys\<close>

definition digitTable :: "(char \<times> nat) list" where
  "digitTable = [(CHR ''0'', 0), (CHR ''1'', 1), (CHR ''2'', 2), (CHR ''3'', 3),
     (CHR ''4'', 4), (CHR ''5'', 5), (CHR ''6'', 6), (CHR ''7'', 7), (CHR ''8'', 8),
     (CHR ''9'', 9)]"

fun digitsVal :: "string \<Rightarrow> nat \<Rightarrow> nat option" where
  "digitsVal [] acc = Some acc"
| "digitsVal (c # cs) acc =
     (case map_of digitTable c of
        None \<Rightarrow> None
      | Some d \<Rightarrow> digitsVal cs (10 * acc + d))"

text \<open>
  An array index is a canonical decimal string (no sign, no leading zero) below
  \<open>2^32 - 1\<close>; every other key of an array is \<open>length\<close> or a named property.
\<close>

definition arrayIndex :: "string \<Rightarrow> nat option" where
  "arrayIndex s =
     (case s of
        [] \<Rightarrow> None
      | c # cs \<Rightarrow>
          if c = CHR ''0'' \<and> cs \<noteq> [] then None
          else (case digitsVal s 0 of
                  None \<Rightarrow> None
                | Some n \<Rightarrow> if n < 4294967295 then Some n else None))"

fun showNat :: "nat \<Rightarrow> string" where
  "showNat n =
     (if n < 10 then [''0123456789'' ! n]
      else showNat (n div 10) @ [''0123456789'' ! (n mod 10)])"

declare showNat.simps [simp del]

definition lookupProp :: "(string \<times> jsv) list \<Rightarrow> string \<Rightarrow> jsv" where
  "lookupProp ps k = (case map_of ps k of None \<Rightarrow> JUndefined | Some v \<Rightarrow> v)"

text \<open>
  \<open>obj[key]\<close>: reading a property of \<open>undefined\<close> or \<open>null\<close> throws a TypeError,
  a missing property reads as \<open>undefined\<close>.
\<close>

fun getProp :: "jsv \<Rightarrow> string \<Rightarrow> js_error + jsv" where
  "getProp JUndefined k = Inl TypeError"
| "getProp JNull k = Inl TypeError"
| "getProp (JBool b) k = Inr JUndefined"
| "getProp (JNum n) k = Inr JUndefined"
| "getProp (JStr s) k =
     Inr (case arrayIndex k of
            Some i \<Rightarrow> if i < length s then JStr [s ! i] else JUndefined
          | None \<Rightarrow> if k = ''length'' then JNum (int (length s)) else JUndefined)"
| "getProp (JArr xs ps) k =
     Inr (case arrayIndex k of
            Some i \<Rightarrow> if i < length xs then xs ! i else JUndefined
          | None \<Rightarrow> if k = ''length'' then JNum (int (length xs)) else lookupProp ps k)"
| "getProp (JObj ps) k = Inr (lookupProp ps k)"

section \<open>The selector resolver (utils/recursiveSelect)\<close>

text \<open>
  A selector is a dot-delimited string, a list of segments, or absent
  (\<open>null\<close>/\<open>undefined\<close>). A string is split at the dots and its empty segments are
  dropped; an empty or absent selector addresses the root.
\<close>

datatype selector = SelStr string | SelList "string list" | SelNone

fun splitDot :: "string \<Rightarrow> string list" where
  "splitDot [] = [[]]"
| "splitDot (c # cs) =
     (if c = CHR ''.'' then [] # splitDot cs
      else (case splitDot cs of
              [] \<Rightarrow> [[c]]
            | w # ws \<Rightarrow> (c # w) # ws))"

fun selPath :: "selector \<Rightarrow> string list" where
  "selPath (SelStr s) = filter (\<lambda>seg. seg \<noteq> []) (splitDot s)"
| "selPath (SelList ks) = ks"
| "selPath SelNone = []"

text \<open>
  The recursion of \<open>recursiveSelect\<close> on the list of segments. A throwing property
  read is caught and gives \<open>undefined\<close>.
\<close>

fun rsList :: "string list \<Rightarrow> jsv \<Rightarrow> jsv" where
  "rsList [] obj = obj"
| "rsList (k # ks) obj =
     (case getProp obj k of
        Inl e \<Rightarrow> JUndefined
      | Inr v \<Rightarrow> rsList ks v)"

definition recursiveSelect :: "selector \<Rightarrow> jsv \<Rightarrow> jsv" where
  "recursiveSelect sel obj = rsList (selPath sel) obj"

abbreviation rs :: "selector \<Rightarrow> jsv \<Rightarrow> jsv" where
  "rs \<equiv> recursiveSelect"

text \<open>\<open>selector || []\<close> (line 184 of the authority).\<close>

fun orEmpty :: "selector \<Rightarrow> selector" where
  "orEmpty SelNone = SelList []"
| "orEmpty (SelStr s) = (if s = [] then SelList [] else SelStr s)"
| "orEmpty (SelList ks) = SelList ks"

subsection \<open>In-place mutation of the resolved target\<close>

text \<open>
  The operations mutate the object that \<open>rs\<close> returned, which is a part of the loaded
  snapshot. With values instead of references, the mutated snapshot is the snapshot
  with the value at the selector's path replaced. \<open>putProp\<close> puts a changed child
  back where it was read.
\<close>

fun putProp :: "jsv \<Rightarrow> string \<Rightarrow> jsv \<Rightarrow> jsv" where
  "putProp (JObj ps) k c = JObj (AList.update k c ps)"
| "putProp (JArr xs ps) k c =
     (case arrayIndex k of
        Some i \<Rightarrow> JArr (xs[i := c]) ps
      | None \<Rightarrow> if k = ''length'' then JArr xs ps else JArr xs (AList.update k c ps))"
| "putProp v k c = v"

fun replaceAt :: "string list \<Rightarrow> jsv \<Rightarrow> jsv \<Rightarrow> jsv" where
  "replaceAt [] new v = new"
| "replaceAt (k # ks) new v =
     (case getProp v k of
        Inl e \<Rightarrow> v
      | Inr c \<Rightarrow> putProp v k (replaceAt ks new c))"

section \<open>Builtins of the runtime\<close>

text \<open>
  The operations call builtins of the JavaScript runtime whose code is not part of the
  repository. They are parameters of the model: \<open>JSON.stringify\<close>, \<open>JSON.parse\<close>
  (\<open>Inl SyntaxError\<close> when it throws), the outcome of \<open>==\<close> on two operands of
  different types (which goes through ToNumber and ToPrimitive), and the length that
  an assignment to an array's \<open>length\<close> sets (\<open>None\<close> when it throws a RangeError).
  Whether two objects are the same object is a fact of the heap, which values do not
  show: the caller of an in-memory authority may pass an object it took from the
  document with \<open>get\<close>. \<open>identical i\<close> says whether, in the comparison that
  \<open>findIndex\<close> makes at element \<open>i\<close> of the target, two operands that are both
  objects (or both arrays) are the same object.
\<close>

record runtime =
  stringify :: "jsv \<Rightarrow> string"
  parse :: "string \<Rightarrow> js_error + jsv"
  coerceEq :: "jsv \<Rightarrow> jsv \<Rightarrow> bool"
  coerceLength :: "jsv \<Rightarrow> nat option"
  identical :: "nat \<Rightarrow> bool"

text \<open>
  \<open>a === b\<close> and \<open>a == b\<close>. Two objects, or two arrays, are equal only when they
  are the same object: \<open>same\<close> says whether they are. An array and an object that is
  not an array are never the same object.
\<close>

fun strictEq :: "bool \<Rightarrow> jsv \<Rightarrow> jsv \<Rightarrow> bool" where
  "strictEq same JUndefined JUndefined = True"
| "strictEq same JNull JNull = True"
| "strictEq same (JBool a) (JBool b) = (a = b)"
| "strictEq same (JNum a) (JNum b) = (a = b)"
| "strictEq same (JStr a) (JStr b) = (a = b)"
| "strictEq same (JArr xs ps) (JArr ys qs) = same"
| "strictEq same (JObj ps) (JObj qs) = same"
| "strictEq same a b = False"

fun isNullish :: "jsv \<Rightarrow> bool" where
  "isNullish JUndefined = True"
| "isNullish JNull = True"
| "isNullish v = False"

fun looseEq :: "runtime \<Rightarrow> bool \<Rightarrow> jsv \<Rightarrow> jsv \<Rightarrow> bool" where
  "looseEq rt same JUndefined b = isNullish b"
| "looseEq rt same JNull b = isNullish b"
| "looseEq rt same (JBool a) JUndefined = False"
| "looseEq rt same (JBool a) JNull = False"
| "looseEq rt same (JNum a) JUndefined = False"
| "looseEq rt same (JNum a) JNull = False"
| "looseEq rt same (JStr a) JUndefined = False"
| "looseEq rt same (JStr a) JNull = False"
| "looseEq rt same (JArr xs ps) JUndefined = False"
| "looseEq rt same (JArr xs ps) JNull = False"
| "looseEq rt same (JObj ps) JUndefined = False"
| "looseEq rt same (JObj ps) JNull = False"
| "looseEq rt same (JBool a) (JBool b) = (a = b)"
| "looseEq rt same (JNum a) (JNum b) = (a = b)"
| "looseEq rt same (JStr a) (JStr b) = (a = b)"
| "looseEq rt same (JArr xs ps) (JArr ys qs) = same"
| "looseEq rt same (JArr xs ps) (JObj qs) = False"
| "looseEq rt same (JObj ps) (JArr ys qs) = False"
| "looseEq rt same (JObj ps) (JObj qs) = same"
| "looseEq rt same a b = coerceEq rt a b"

text \<open>
  The own properties of an object are listed with the array-index keys first, in
  ascending order, and the other keys after them in the order of their creation.
  Assigning to an existing key keeps its place; a new key goes to its place in that
  order.
\<close>

fun insertIndexKey ::
  "nat \<Rightarrow> string \<Rightarrow> jsv \<Rightarrow> (string \<times> jsv) list \<Rightarrow> (string \<times> jsv) list" where
  "insertIndexKey i k v [] = [(k, v)]"
| "insertIndexKey i k v (p # ps) =
     (case arrayIndex (fst p) of
        Some j \<Rightarrow> if j < i then p # insertIndexKey i k v ps else (k, v) # p # ps
      | None \<Rightarrow> (k, v) # p # ps)"

definition assignOwn :: "string \<Rightarrow> jsv \<Rightarrow> (string \<times> jsv) list \<Rightarrow> (string \<times> jsv) list" where
  "assignOwn k v ps =
     (case map_of ps k of
        Some old \<Rightarrow> AList.update k v ps
      | None \<Rightarrow>
          (case arrayIndex k of
             Some i \<Rightarrow> insertIndexKey i k v ps
           | None \<Rightarrow> ps @ [(k, v)]))"

text \<open>
  \<open>target[key] = value\<close>. On an array an index key writes the element (padding with
  holes beyond the end), \<open>length\<close> resizes the array, any other key becomes a named
  property. The module is strict code, so assigning to a property of a primitive
  throws.
\<close>

fun setProp :: "runtime \<Rightarrow> jsv \<Rightarrow> string \<Rightarrow> jsv \<Rightarrow> js_error + jsv" where
  "setProp rt (JObj ps) k v = Inr (JObj (assignOwn k v ps))"
| "setProp rt (JArr xs ps) k v =
     (case arrayIndex k of
        Some i \<Rightarrow>
          Inr (JArr (if i < length xs then xs[i := v]
                     else xs @ replicate (i - length xs) JUndefined @ [v]) ps)
      | None \<Rightarrow>
          if k = ''length'' then
            (case coerceLength rt v of
               None \<Rightarrow> Inl RangeError
             | Some n \<Rightarrow> Inr (JArr (take n xs @ replicate (n - length xs) JUndefined) ps))
          else Inr (JArr xs (AList.update k v ps)))"
| "setProp rt t k v = Inl TypeError"

text \<open>
  \<open>Array.prototype.splice(start, deleteCount)\<close> on integers: a negative start counts
  from the end, both arguments are clamped to the array. The result is the removed
  elements and the elements that remain.
\<close>

definition jsSplice :: "jsv list \<Rightarrow> int \<Rightarrow> int \<Rightarrow> jsv list \<times> jsv list" where
  "jsSplice xs start deleteCount =
     (let len = int (length xs);
          actualStart = (if start < 0 then max (len + start) 0 else min start len);
          actualDeleteCount = min (max deleteCount 0) (len - actualStart);
          s = nat actualStart;
          d = nat actualDeleteCount
      in (take d (drop s xs), take s xs @ drop (s + d) xs))"

text \<open>
  \<open>Array.prototype.findIndex\<close> with a callback that may throw. The callback is
  given the index and the element; \<open>None\<close> is the result \<open>-1\<close>.
\<close>

fun findIndexFrom ::
  "nat \<Rightarrow> (nat \<Rightarrow> jsv \<Rightarrow> js_error + bool) \<Rightarrow> jsv list \<Rightarrow> js_error + nat option" where
  "findIndexFrom i p [] = Inr None"
| "findIndexFrom i p (x # xs) =
     (case p i x of
        Inl e \<Rightarrow> Inl e
      | Inr True \<Rightarrow> Inr (Some i)
      | Inr False \<Rightarrow> findIndexFrom (Suc i) p xs)"

definition findIndex ::
  "(nat \<Rightarrow> jsv \<Rightarrow> js_error + bool) \<Rightarrow> jsv list \<Rightarrow> js_error + nat option" where
  "findIndex p xs = findIndexFrom 0 p xs"

text \<open>
  The optional \<open>key\<close> argument (\<open>string | number\<close>). The code tests \<open>!key\<close>, so the
  empty string and the number 0 count as no key. A number names the property of its
  decimal text.
\<close>

datatype keyarg = NoKey | KeyStr string | KeyNum int

definition showInt :: "int \<Rightarrow> string" where
  "showInt n = (if n < 0 then CHR ''-'' # showNat (nat (- n)) else showNat (nat n))"

fun keyName :: "keyarg \<Rightarrow> string option" where
  "keyName NoKey = None"
| "keyName (KeyStr s) = (if s = [] then None else Some s)"
| "keyName (KeyNum n) = (if n = 0 then None else Some (showInt n))"

text \<open>\<open>ti[key] == item[key]\<close>: both reads may throw.\<close>

definition fieldsLooseEq ::
  "runtime \<Rightarrow> string \<Rightarrow> jsv \<Rightarrow> nat \<Rightarrow> jsv \<Rightarrow> js_error + bool" where
  "fieldsLooseEq rt k item i ti =
     (case getProp ti k of
        Inl e \<Rightarrow> Inl e
      | Inr a \<Rightarrow>
          (case getProp item k of
             Inl e \<Rightarrow> Inl e
           | Inr b \<Rightarrow> Inr (looseEq rt (identical rt i) a b)))"

text \<open>
  The own enumerable properties that an object spread \<open>{...v}\<close> copies: those of an
  object, the elements of an array under their indices followed by its named
  properties, nothing for \<open>null\<close>.
\<close>

fun ownProps :: "jsv \<Rightarrow> (string \<times> jsv) list" where
  "ownProps (JObj ps) = ps"
| "ownProps (JArr xs ps) = zip (map showNat [0..<length xs]) xs @ ps"
| "ownProps v = []"

section \<open>The document authority\<close>

subsection \<open>Source, backing store and lock state\<close>

datatype sourceType = JsonFile string | Redis string | InMemory string

text \<open>The document identity (line 84).\<close>

fun uniqueEventId :: "sourceType \<Rightarrow> string" where
  "uniqueEventId (JsonFile fileFullPath) = fileFullPath"
| "uniqueEventId (Redis uniqueIdentifier) = uniqueIdentifier"
| "uniqueEventId (InMemory uniqueIdentifier) = uniqueIdentifier"

text \<open>
  What \<open>makeDynamicJson\<close> closes over: the source descriptor and whether the manager
  was built with a store client.
\<close>

record config =
  source :: sourceType
  hasRedisClient :: bool

text \<open>
  The backing stores: the variable \<open>inMemory\<close> of the authority, the files by path
  (an absent path is a file that does not exist) and the keys of the central store.
\<close>

record world =
  inMemory :: jsv
  files :: "string \<Rightarrow> string option"
  redisKeys :: "string \<Rightarrow> string option"

text \<open>
  The lock state of the authority: \<open>lockId\<close> (\<open>None\<close> is \<open>null\<close>) and
  \<open>primaryLock.locked\<close>. The code tests \<open>lockId\<close> for truthiness, so the token 0,
  which \<open>generateQueryId\<close> can draw, counts as no token.
\<close>

record auth =
  lockId :: "nat option"
  primaryLocked :: bool

fun held :: "nat option \<Rightarrow> bool" where
  "held None = False"
| "held (Some n) = (n \<noteq> 0)"

text \<open>
  \<open>getAllData\<close> (lines 156-168). The central store's text is returned as it is read,
  a string; only a file's text is parsed.
\<close>

definition getAllData :: "runtime \<Rightarrow> config \<Rightarrow> world \<Rightarrow> js_error + jsv" where
  "getAllData rt cfg w =
     (case (case source cfg of
              InMemory u \<Rightarrow> Inr (inMemory w)
            | Redis u \<Rightarrow>
                if hasRedisClient cfg
                then Inr (case redisKeys w u of None \<Rightarrow> JNull | Some t \<Rightarrow> JStr t)
                else Inr (JObj [])
            | JsonFile p \<Rightarrow>
                (case files w p of
                   Some t \<Rightarrow> parse rt t
                 | None \<Rightarrow> Inr (JObj []))) of
        Inl e \<Rightarrow> Inl e
      | Inr result \<Rightarrow> Inr (if truthy result then result else JObj []))"

text \<open>\<open>update\<close> (lines 170-176): there is no branch for an in-memory source.\<close>

definition update :: "runtime \<Rightarrow> config \<Rightarrow> jsv \<Rightarrow> world \<Rightarrow> world" where
  "update rt cfg updatedData w =
     (case source cfg of
        JsonFile p \<Rightarrow> w\<lparr>files := (files w)(p \<mapsto> stringify rt updatedData)\<rparr>
      | Redis u \<Rightarrow>
          if hasRedisClient cfg
          then w\<lparr>redisKeys := (redisKeys w)(u \<mapsto> stringify rt updatedData)\<rparr>
          else w
      | InMemory u \<Rightarrow> w)"

subsection \<open>The bodies of the mutation operations\<close>

text \<open>
  What the body of an operation does to the snapshot \<open>data\<close> it loaded: the value it
  returns (or the error it throws), the snapshot after the in-place mutations, and
  whether it called \<open>update(data)\<close>.
\<close>

record applied =
  ret :: "js_error + jsv"
  mutated :: jsv
  persisted :: bool

definition softFail :: "jsv \<Rightarrow> applied" where
  "softFail data = \<lparr>ret = Inr (JBool False), mutated = data, persisted = False\<rparr>"

definition thrown :: "js_error \<Rightarrow> jsv \<Rightarrow> applied" where
  "thrown e data = \<lparr>ret = Inl e, mutated = data, persisted = False\<rparr>"

definition completed :: "jsv \<Rightarrow> jsv \<Rightarrow> applied" where
  "completed r data = \<lparr>ret = Inr r, mutated = data, persisted = True\<rparr>"

text \<open>The body of \<open>setDirect\<close> (lines 178-192).\<close>

definition setBody :: "runtime \<Rightarrow> selector \<Rightarrow> string \<Rightarrow> jsv \<Rightarrow> jsv \<Rightarrow> applied" where
  "setBody rt selector key val data =
     (let path = selPath (orEmpty selector);
          target = rsList path data
      in if typeofObject target \<and> truthy target \<and> \<not> isArray target then
           (case setProp rt target key val of
              Inl e \<Rightarrow> thrown e data
            | Inr t \<Rightarrow> completed (JBool True) (replaceAt path t data))
         else softFail data)"

text \<open>The bodies of \<open>pushDirect\<close> and \<open>unshiftDirect\<close> (lines 194-216).\<close>

definition pushBody :: "selector \<Rightarrow> jsv \<Rightarrow> jsv \<Rightarrow> applied" where
  "pushBody selector val data =
     (case rsList (selPath selector) data of
        JArr xs ps \<Rightarrow> completed (JBool True) (replaceAt (selPath selector) (JArr (xs @ [val]) ps) data)
      | _ \<Rightarrow> softFail data)"

definition unshiftBody :: "selector \<Rightarrow> jsv \<Rightarrow> jsv \<Rightarrow> applied" where
  "unshiftBody selector val data =
     (case rsList (selPath selector) data of
        JArr xs ps \<Rightarrow> completed (JBool True) (replaceAt (selPath selector) (JArr (val # xs) ps) data)
      | _ \<Rightarrow> softFail data)"

text \<open>The body of \<open>removeItemFromArrayDirect\<close> (lines 218-239).\<close>

definition removeItemFromArrayBody ::
  "runtime \<Rightarrow> selector \<Rightarrow> jsv \<Rightarrow> keyarg \<Rightarrow> jsv \<Rightarrow> applied" where
  "removeItemFromArrayBody rt selector item key data =
     (case rsList (selPath selector) data of
        JArr xs ps \<Rightarrow>
          (case findIndex (\<lambda>i ti. case keyName key of
                                     None \<Rightarrow> Inr (looseEq rt (identical rt i) ti item)
                                   | Some k \<Rightarrow> fieldsLooseEq rt k item i ti) xs of
             Inl e \<Rightarrow> thrown e data
           | Inr (Some itemIndex) \<Rightarrow>
               completed (JBool True)
                 (replaceAt (selPath selector)
                    (JArr (take itemIndex xs @ drop (Suc itemIndex) xs) ps) data)
           | Inr None \<Rightarrow> softFail data)
      | _ \<Rightarrow> softFail data)"

text \<open>
  The body of \<open>updateItemInArrayDirect\<close> (lines 241-269). The object literal of
  lines 254-257 spreads the located element and then adds one property named
  \<open>updatedItem\<close> whose value is the argument.
\<close>

definition updateItemInArrayBody ::
  "runtime \<Rightarrow> selector \<Rightarrow> jsv \<Rightarrow> jsv \<Rightarrow> keyarg \<Rightarrow> jsv \<Rightarrow> applied" where
  "updateItemInArrayBody rt selector item updatedItem key data =
     (case rsList (selPath selector) data of
        JArr xs ps \<Rightarrow>
          (case findIndex (\<lambda>i ti. case keyName key of
                                     None \<Rightarrow> Inr (strictEq (identical rt i) ti item)
                                   | Some k \<Rightarrow> fieldsLooseEq rt k item i ti) xs of
             Inl e \<Rightarrow> thrown e data
           | Inr (Some itemIndex) \<Rightarrow>
               completed (JBool True)
                 (replaceAt (selPath selector)
                    (JArr (xs[itemIndex :=
                             (if typeofObject (xs ! itemIndex)
                              then JObj (AList.update ''updatedItem'' updatedItem
                                           (ownProps (xs ! itemIndex)))
                              else updatedItem)]) ps) data)
           | Inr None \<Rightarrow> softFail data)
      | _ \<Rightarrow> softFail data)"

text \<open>The body of \<open>batchSetDirect\<close> (lines 271-292).\<close>

datatype queryType = QPush | QUnshift | QSet

record jsonUpdateQuery =
  qtype :: queryType
  qselector :: selector
  qkey :: string
  qvalue :: jsv

definition batchStep :: "runtime \<Rightarrow> jsonUpdateQuery \<Rightarrow> jsv \<Rightarrow> js_error + jsv" where
  "batchStep rt query data =
     (let path = selPath (qselector query);
          target = rsList path data
      in case qtype query of
           QPush \<Rightarrow>
             (case target of
                JArr xs ps \<Rightarrow> Inr (replaceAt path (JArr (xs @ [qvalue query]) ps) data)
              | _ \<Rightarrow> Inr data)
         | QSet \<Rightarrow>
             if typeofObject target \<and> truthy target then
               (case setProp rt target (qkey query) (qvalue query) of
                  Inl e \<Rightarrow> Inl e
                | Inr t \<Rightarrow> Inr (replaceAt path t data))
             else Inr data
         | QUnshift \<Rightarrow>
             (case target of
                JArr xs ps \<Rightarrow> Inr (replaceAt path (JArr (qvalue query # xs) ps) data)
              | _ \<Rightarrow> Inr data))"

fun batchSetBody :: "runtime \<Rightarrow> jsonUpdateQuery list \<Rightarrow> jsv \<Rightarrow> applied" where
  "batchSetBody rt [] data = completed JUndefined data"
| "batchSetBody rt (query # queries) data =
     (case batchStep rt query data of
        Inl e \<Rightarrow> thrown e data
      | Inr data' \<Rightarrow> batchSetBody rt queries data')"

text \<open>The bodies of \<open>spliceDirect\<close>, \<open>popDirect\<close> and \<open>shiftDirect\<close> (lines 294-328).\<close>

definition spliceBody :: "selector \<Rightarrow> int \<Rightarrow> int \<Rightarrow> jsv \<Rightarrow> applied" where
  "spliceBody selector startIndex deleteCount data =
     (case rsList (selPath selector) data of
        JArr xs ps \<Rightarrow>
          (case jsSplice xs startIndex deleteCount of
             (removed, rest) \<Rightarrow>
               completed (JArr removed []) (replaceAt (selPath selector) (JArr rest ps) data))
      | _ \<Rightarrow> softFail data)"

definition popBody :: "selector \<Rightarrow> jsv \<Rightarrow> applied" where
  "popBody selector data =
     (case rsList (selPath selector) data of
        JArr xs ps \<Rightarrow>
          (if xs = [] then completed JUndefined data
           else completed (last xs) (replaceAt (selPath selector) (JArr (butlast xs) ps) data))
      | _ \<Rightarrow> softFail data)"

definition shiftBody :: "selector \<Rightarrow> jsv \<Rightarrow> applied" where
  "shiftBody selector data =
     (case rsList (selPath selector) data of
        JArr xs ps \<Rightarrow>
          (case xs of
             [] \<Rightarrow> completed JUndefined data
           | x # rest \<Rightarrow> completed x (replaceAt (selPath selector) (JArr rest ps) data))
      | _ \<Rightarrow> softFail data)"

subsection \<open>Running a body against the backing store\<close>

text \<open>
  For an in-memory source the loaded snapshot is the object held in \<open>inMemory\<close>
  itself (when that value is truthy; otherwise \<open>getAllData\<close> hands out a fresh
  object), so the in-place mutations of a body are mutations of \<open>inMemory\<close>. For the
  other sources the snapshot is a fresh value and reaches the store through
  \<open>update\<close> only.
\<close>

definition inPlace :: "config \<Rightarrow> jsv \<Rightarrow> world \<Rightarrow> world" where
  "inPlace cfg data w =
     (case source cfg of
        InMemory u \<Rightarrow> if truthy (inMemory w) then w\<lparr>inMemory := data\<rparr> else w
      | _ \<Rightarrow> w)"

text \<open>
  A body run from its load to the end of its write with nothing else in between:
  load, apply, persist.
\<close>

definition runBody ::
  "runtime \<Rightarrow> config \<Rightarrow> (jsv \<Rightarrow> applied) \<Rightarrow> world \<Rightarrow> (js_error + jsv) \<times> world" where
  "runBody rt cfg body w =
     (case getAllData rt cfg w of
        Inl e \<Rightarrow> (Inl e, w)
      | Inr data \<Rightarrow>
          (let r = body data;
               w1 = inPlace cfg (mutated r) w
           in (ret r, if persisted r then update rt cfg (mutated r) w1 else w1)))"

subsection \<open>The lock wrapper\<close>

text \<open>
  \<open>lockRedis\<close> (lines 95-102). \<open>acquired\<close> says whether \<open>DistributedLock.acquire\<close>,
  whose code is not among the sources, returned a truthy lock id.
\<close>

definition lockRedis :: "config \<Rightarrow> auth \<Rightarrow> bool \<Rightarrow> bool \<Rightarrow> bool" where
  "lockRedis cfg a force acquired =
     (if (if force then True else if held (lockId a) then False else \<not> primaryLocked a)
      then (case source cfg of Redis u \<Rightarrow> acquired | _ \<Rightarrow> True)
      else True)"

text \<open>
  \<open>lockMethod\<close> (lines 109-131) around \<open>LockMethod\<close> of utils/lockMethod. The wrapper
  awaits \<open>lockRedis\<close>, then calls \<open>method(...args)\<close> as a statement: it neither
  awaits nor returns the promise of the body. So the wrapper's own promise, and with
  it the promise of the wrapped operation, resolves to \<open>undefined\<close> whatever the body
  returns, and an error thrown by the body rejects a promise that nobody observes.
  The world of the result is the one the body leaves once it has run to its end with
  nothing else touching the stores in between. For an in-memory source the body has
  run to its end when the promise settles. For a file or the central store the
  promise settles first, before the body has loaded anything: the world of the result
  is reached only later, and a call made in the meantime, even one made after
  awaiting this promise, runs beside the body as the scheduler below describes.
\<close>

definition lockMethod ::
  "config \<Rightarrow> auth \<Rightarrow> bool \<Rightarrow> (world \<Rightarrow> (js_error + jsv) \<times> world) \<Rightarrow> world
     \<Rightarrow> settled \<times> world" where
  "lockMethod cfg a acquired method w =
     (if lockRedis cfg a False acquired
      then (Resolved JUndefined, snd (method w))
      else (Rejected (Error (''failed to acquire redis Lock '' @ uniqueEventId (source cfg))), w))"

subsection \<open>The operations of the authority\<close>

definition setDirect ::
  "runtime \<Rightarrow> config \<Rightarrow> auth \<Rightarrow> bool \<Rightarrow> selector \<Rightarrow> string \<Rightarrow> jsv \<Rightarrow> world \<Rightarrow> settled \<times> world" where
  "setDirect rt cfg a acquired selector key val =
     lockMethod cfg a acquired (runBody rt cfg (setBody rt selector key val))"

definition pushDirect ::
  "runtime \<Rightarrow> config \<Rightarrow> auth \<Rightarrow> bool \<Rightarrow> selector \<Rightarrow> jsv \<Rightarrow> world \<Rightarrow> settled \<times> world" where
  "pushDirect rt cfg a acquired selector val =
     lockMethod cfg a acquired (runBody rt cfg (pushBody selector val))"

definition unshiftDirect ::
  "runtime \<Rightarrow> config \<Rightarrow> auth \<Rightarrow> bool \<Rightarrow> selector \<Rightarrow> jsv \<Rightarrow> world \<Rightarrow> settled \<times> world" where
  "unshiftDirect rt cfg a acquired selector val =
     lockMethod cfg a acquired (runBody rt cfg (unshiftBody selector val))"

definition removeItemFromArrayDirect ::
  "runtime \<Rightarrow> config \<Rightarrow> auth \<Rightarrow> bool \<Rightarrow> selector \<Rightarrow> jsv \<Rightarrow> keyarg \<Rightarrow> world
     \<Rightarrow> settled \<times> world" where
  "removeItemFromArrayDirect rt cfg a acquired selector item key =
     lockMethod cfg a acquired (runBody rt cfg (removeItemFromArrayBody rt selector item key))"

definition updateItemInArrayDirect ::
  "runtime \<Rightarrow> config \<Rightarrow> auth \<Rightarrow> bool \<Rightarrow> selector \<Rightarrow> jsv \<Rightarrow> jsv \<Rightarrow> keyarg \<Rightarrow> world
     \<Rightarrow> settled \<times> world" where
  "updateItemInArrayDirect rt cfg a acquired selector item updatedItem key =
     lockMethod cfg a acquired
       (runBody rt cfg (updateItemInArrayBody rt selector item updatedItem key))"

definition batchSetDirect ::
  "runtime \<Rightarrow> config \<Rightarrow> auth \<Rightarrow> bool \<Rightarrow> jsonUpdateQuery list \<Rightarrow> world \<Rightarrow> settled \<times> world" where
  "batchSetDirect rt cfg a acquired queries =
     lockMethod cfg a acquired (runBody rt cfg (batchSetBody rt queries))"

definition spliceDirect ::
  "runtime \<Rightarrow> config \<Rightarrow> auth \<Rightarrow> bool \<Rightarrow> selector \<Rightarrow> int \<Rightarrow> int \<Rightarrow> world \<Rightarrow> settled \<times> world" where
  "spliceDirect rt cfg a acquired selector startIndex deleteCount =
     lockMethod cfg a acquired (runBody rt cfg (spliceBody selector startIndex deleteCount))"

definition popDirect ::
  "runtime \<Rightarrow> config \<Rightarrow> auth \<Rightarrow> bool \<Rightarrow> selector \<Rightarrow> world \<Rightarrow> settled \<times> world" where
  "popDirect rt cfg a acquired selector =
     lockMethod cfg a acquired (runBody rt cfg (popBody selector))"

definition shiftDirect ::
  "runtime \<Rightarrow> config \<Rightarrow> auth \<Rightarrow> bool \<Rightarrow> selector \<Rightarrow> world \<Rightarrow> settled \<times> world" where
  "shiftDirect rt cfg a acquired selector =
     lockMethod cfg a acquired (runBody rt cfg (shiftBody selector))"

text \<open>\<open>updateJsonFromProvided\<close> (lines 329-331): the body is \<open>update(newData)\<close> alone.\<close>

definition updateJsonFromProvided ::
  "runtime \<Rightarrow> config \<Rightarrow> auth \<Rightarrow> bool \<Rightarrow> jsv \<Rightarrow> world \<Rightarrow> settled \<times> world" where
  "updateJsonFromProvided rt cfg a acquired newData =
     lockMethod cfg a acquired (\<lambda>w. (Inr JUndefined, update rt cfg newData w))"

text \<open>\<open>get\<close> of the authority (lines 538-540): no lock.\<close>

definition get :: "runtime \<Rightarrow> config \<Rightarrow> selector \<Rightarrow> world \<Rightarrow> settled" where
  "get rt cfg selector w =
     (case getAllData rt cfg w of
        Inl e \<Rightarrow> Rejected e
      | Inr data \<Rightarrow> Resolved (rs selector data))"

section \<open>Concurrent mutations: the event loop around the lock wrapper\<close>

text \<open>
  A process runs one call at a time and switches only where a call awaits. A wrapped
  mutation passes these points:
  \<^item> \<open>Queued\<close>: \<open>lock.acquire(lockName, ...)\<close> of utils/lockMethod has been called and
    the key is taken by another call;
  \<^item> \<open>Holding\<close>: the key is held and the wrapper awaits \<open>lockRedis()\<close> (line 112);
  \<^item> \<open>Loading\<close>: the wrapper has called the body (line 115) and returned; the body is
    suspended in \<open>await getAllData()\<close>, waiting for the file or the central store;
  \<^item> \<open>Writing d\<close>: the body has applied the operation and called \<open>update(d)\<close>, whose
    write is under way;
  \<^item> \<open>Finished\<close>.
  The named lock is released when the function given to \<open>lock.acquire\<close> settles, that
  is, when the wrapper returns. Since the wrapper does not await the body, this is at
  the step from \<open>Holding\<close> to \<open>Loading\<close>. For an in-memory source the body awaits
  no input: its continuation is queued before the wrapper returns, so the whole body
  runs before the key is handed on.
\<close>

datatype phase = Queued | Holding | Loading | Writing jsv | Finished

record sched =
  holder :: "nat option"
  phases :: "phase list"
  store :: world

datatype event = Acquire nat | Enter nat | Loaded nat | Written nat

definition step ::
  "runtime \<Rightarrow> config \<Rightarrow> auth \<Rightarrow> bool \<Rightarrow> (jsv \<Rightarrow> applied) list \<Rightarrow> event \<Rightarrow> sched
     \<Rightarrow> sched option" where
  "step rt cfg a acquired bodies ev s =
     (case ev of
        Acquire i \<Rightarrow>
          if i < length (phases s) \<and> phases s ! i = Queued \<and> holder s = None
          then Some (s\<lparr>holder := Some i, phases := (phases s)[i := Holding]\<rparr>)
          else None
      | Enter i \<Rightarrow>
          if i < length (phases s) \<and> i < length bodies \<and> phases s ! i = Holding
          then
            (if lockRedis cfg a False acquired then
               (case source cfg of
                  InMemory u \<Rightarrow>
                    Some (s\<lparr>holder := None, phases := (phases s)[i := Finished],
                            store := snd (runBody rt cfg (bodies ! i) (store s))\<rparr>)
                | _ \<Rightarrow> Some (s\<lparr>holder := None, phases := (phases s)[i := Loading]\<rparr>))
             else Some (s\<lparr>holder := None, phases := (phases s)[i := Finished]\<rparr>))
          else None
      | Loaded i \<Rightarrow>
          if i < length (phases s) \<and> i < length bodies \<and> phases s ! i = Loading
          then
            (case getAllData rt cfg (store s) of
               Inl e \<Rightarrow> Some (s\<lparr>phases := (phases s)[i := Finished]\<rparr>)
             | Inr data \<Rightarrow>
                 (let r = (bodies ! i) data
                  in Some (s\<lparr>phases := (phases s)[i := (if persisted r then Writing (mutated r)
                                                          else Finished)]\<rparr>)))
          else None
      | Written i \<Rightarrow>
          if i < length (phases s) then
            (case phases s ! i of
               Writing d \<Rightarrow>
                 Some (s\<lparr>phases := (phases s)[i := Finished],
                         store := update rt cfg d (store s)\<rparr>)
             | _ \<Rightarrow> None)
          else None)"

fun run ::
  "runtime \<Rightarrow> config \<Rightarrow> auth \<Rightarrow> bool \<Rightarrow> (jsv \<Rightarrow> applied) list \<Rightarrow> event list \<Rightarrow> sched
     \<Rightarrow> sched option" where
  "run rt cfg a acquired bodies [] s = Some s"
| "run rt cfg a acquired bodies (ev # evs) s =
     (case step rt cfg a acquired bodies ev s of
        None \<Rightarrow> None
      | Some s' \<Rightarrow> run rt cfg a acquired bodies evs s')"

text \<open>
  A body is under way from its load to the end of its write. \<open>bodiesUnderWay\<close>
  counts the bodies that are.
\<close>

fun inBody :: "phase \<Rightarrow> bool" where
  "inBody Loading = True"
| "inBody (Writing d) = True"
| "inBody p = False"

definition bodiesUnderWay :: "sched \<Rightarrow> nat" where
  "bodiesUnderWay s = length (filter inBody (phases s))"

text \<open>
  The discipline of the named lock itself: the call that is in its wrapper is the one
  that holds the key.
\<close>

definition holderKept :: "sched \<Rightarrow> bool" where
  "holderKept s = (\<forall>i<length (phases s). (phases s ! i = Holding) = (holder s = Some i))"

section \<open>The message dispatcher of the authority\<close>

text \<open>The queries a worker sends, by their \<open>type\<close>; \<open>MOther\<close> is any other type.\<close>

datatype query =
    MLock nat
  | MRelease
  | MGet selector
  | MSet selector string jsv
  | MPush selector jsv
  | MUnshift selector jsv
  | MArraySet "jsonUpdateQuery list"
  | MPop selector
  | MRemoveItemFromArray selector jsv keyarg
  | MUpdateItemInArray selector jsv jsv keyarg
  | MShift selector
  | MSplice selector int int
  | MUpdateJsonFromProvided jsv
  | MOther string

text \<open>
  A request: the document identity, the correlation id, the query and the lock token
  the sender attached (\<open>None\<close> when it attached none).
\<close>

record message =
  request :: string
  queryId :: nat
  msgQuery :: query
  msgLockId :: "nat option"

text \<open>The response sent to the worker: a result or an error, under the correlation id.\<close>

datatype reply = Result nat jsv | Failure nat js_error

fun isFailure :: "reply option \<Rightarrow> bool" where
  "isFailure (Some (Failure q e)) = True"
| "isFailure r = False"

text \<open>
  The waiting loops (lines 341-351 and 372-383) look at the lock state after each
  sleep, at most 30 times. What they see is decided by the other requests and timers
  of the process: \<open>polls k\<close> is the lock state at the \<open>k\<close>-th look after the request
  arrived. \<open>waitFor\<close> gives the look at which the state was free, or \<open>None\<close> when
  all the tries are used up and the loop throws.
\<close>

fun waitFor :: "(auth \<Rightarrow> bool) \<Rightarrow> (nat \<Rightarrow> auth) \<Rightarrow> nat \<Rightarrow> nat \<Rightarrow> nat option" where
  "waitFor free polls k 0 = None"
| "waitFor free polls k (Suc n) =
     (if free (polls k) then Some k else waitFor free polls (Suc k) n)"

definition waitForPrimaryLockIdRelease :: "(nat \<Rightarrow> auth) \<Rightarrow> nat \<Rightarrow> nat option" where
  "waitForPrimaryLockIdRelease polls k = waitFor (\<lambda>a. \<not> primaryLocked a) polls k 30"

definition waitForLockIdRelease :: "(nat \<Rightarrow> auth) \<Rightarrow> nat \<Rightarrow> nat option" where
  "waitForLockIdRelease polls k = waitFor (\<lambda>a. \<not> held (lockId a)) polls k 30"

text \<open>
  The first wait (lines 426-429): a request that finds the authority busy waits for
  it. The result is the lock state with which the handler goes on and the number of
  looks used, or the error thrown together with the lock state last seen.
\<close>

definition awaitPrimary :: "(nat \<Rightarrow> auth) \<Rightarrow> auth \<Rightarrow> (js_error \<times> auth) + (auth \<times> nat)" where
  "awaitPrimary polls a =
     (if primaryLocked a then
        (case waitForPrimaryLockIdRelease polls 0 of
           None \<Rightarrow> Inl (Error ''Could not acquire primary lock for operation'', polls 29)
         | Some k \<Rightarrow> Inr (polls k, Suc k))
      else Inr (a, 0))"

text \<open>
  The second wait (lines 430-433): a request that does not carry the active token
  waits for the token to go.
\<close>

definition awaitToken ::
  "(nat \<Rightarrow> auth) \<Rightarrow> nat option \<Rightarrow> auth \<times> nat \<Rightarrow> (js_error \<times> auth) + auth" where
  "awaitToken polls presented st =
     (case st of
        (a, k) \<Rightarrow>
          if held (lockId a) \<and> presented \<noteq> lockId a then
            (case waitForLockIdRelease polls k of
               None \<Rightarrow> Inl (Error ''Could not acquire lock for operation'', polls (k + 29))
             | Some j \<Rightarrow> Inr (polls j))
          else Inr a)"

definition settledReply :: "nat \<Rightarrow> settled \<Rightarrow> reply" where
  "settledReply q r = (case r of Resolved v \<Rightarrow> Result q v | Rejected e \<Rightarrow> Failure q e)"

text \<open>
  The branches on the query type (lines 434-515), run with the lock state \<open>a\<close> left
  by the two waits. \<open>fresh\<close> is the token \<open>generateQueryId\<close> draws for a \<open>lock\<close> query.
  An error thrown in a branch is caught and sent as the error response (lines
  517-523).
\<close>

definition handleQuery ::
  "runtime \<Rightarrow> config \<Rightarrow> bool \<Rightarrow> nat \<Rightarrow> message \<Rightarrow> auth \<Rightarrow> world \<Rightarrow> reply \<times> auth \<times> world" where
  "handleQuery rt cfg acquired fresh msg a w =
     (let q = queryId msg;
          direct = (\<lambda>r. (settledReply q (fst r), a, snd r))
      in case msgQuery msg of
           MLock timeout \<Rightarrow>
             if held (lockId a) \<and> msgLockId msg = lockId a
             then (Failure q (Error ''you already have a lock''), a, w)
             else (Result q (JNum (int fresh)), a\<lparr>lockId := Some fresh\<rparr>, w)
         | MRelease \<Rightarrow>
             if \<not> held (lockId a)
             then (Failure q (Error ''there is no lock to release''), a, w)
             else if msgLockId msg \<noteq> lockId a
             then (Failure q (Error ''you do not own this lock''), a, w)
             else (Result q (JBool True), a\<lparr>lockId := None\<rparr>, w)
         | MGet selector \<Rightarrow> (settledReply q (get rt cfg selector w), a, w)
         | MSet selector key val \<Rightarrow> direct (setDirect rt cfg a acquired selector key val w)
         | MPush selector val \<Rightarrow> direct (pushDirect rt cfg a acquired selector val w)
         | MUnshift selector val \<Rightarrow> direct (unshiftDirect rt cfg a acquired selector val w)
         | MArraySet queries \<Rightarrow> direct (batchSetDirect rt cfg a acquired queries w)
         | MPop selector \<Rightarrow> direct (popDirect rt cfg a acquired selector w)
         | MRemoveItemFromArray selector item key \<Rightarrow>
             direct (removeItemFromArrayDirect rt cfg a acquired selector item key w)
         | MUpdateItemInArray selector item updatedItem key \<Rightarrow>
             direct (updateItemInArrayDirect rt cfg a acquired selector item updatedItem key w)
         | MShift selector \<Rightarrow> direct (shiftDirect rt cfg a acquired selector w)
         | MSplice selector startIndex deleteCount \<Rightarrow>
             direct (spliceDirect rt cfg a acquired selector startIndex deleteCount w)
         | MUpdateJsonFromProvided newData \<Rightarrow>
             direct (updateJsonFromProvided rt cfg a acquired newData w)
         | MOther t \<Rightarrow> (Result q JUndefined, a, w))"

text \<open>
  The listener of \<open>createWorkerListener\<close> (lines 420-525): a message for another
  document gets no response; otherwise the two waits, then the branch.
\<close>

definition createWorkerListener ::
  "runtime \<Rightarrow> config \<Rightarrow> bool \<Rightarrow> nat \<Rightarrow> (nat \<Rightarrow> auth) \<Rightarrow> message \<Rightarrow> auth \<Rightarrow> world
     \<Rightarrow> reply option \<times> auth \<times> world" where
  "createWorkerListener rt cfg acquired fresh polls msg a w =
     (if request msg = uniqueEventId (source cfg) then
        (case awaitPrimary polls a of
           Inl (e, a') \<Rightarrow> (Some (Failure (queryId msg) e), a', w)
         | Inr st \<Rightarrow>
             (case awaitToken polls (msgLockId msg) st of
                Inl (e, a') \<Rightarrow> (Some (Failure (queryId msg) e), a', w)
              | Inr a' \<Rightarrow>
                  (case handleQuery rt cfg acquired fresh msg a' w of
                     (r, a'', w') \<Rightarrow> (Some r, a'', w'))))
      else (None, a, w))"

section \<open>The worker proxy\<close>

text \<open>
  \<open>sendQuery\<close> (lines 701-709) sends the query with the proxy's \<open>lockId\<close> attached
  and waits for the response with its correlation id: the call resolves with the
  result, or rejects with the error of the response or with \<open>"Timeout"\<close>. What comes
  back is decided by the authority, so the responses are parameters here. A callback is
  given by what it does: the queries it sends through the proxy, in order, and the
  error it throws, if any.
\<close>

record callbackRun =
  cbQueries :: "query list"
  cbThrows :: "js_error option"

text \<open>
  One run of the proxy's \<open>transaction\<close>: how its promise settles, the messages sent
  (query and attached token), what \<open>console.error\<close> was given, and the proxy's
  \<open>lockId\<close> afterwards.
\<close>

record transactionRun =
  txOutcome :: settled
  txSent :: "(query \<times> nat option) list"
  txLogged :: "js_error list"
  txLockId :: "nat option"

text \<open>
  \<open>transaction\<close> of the worker (lines 572-587). \<open>lockReply\<close> is the response to the
  \<open>lock\<close> query (the token, or the error), \<open>releaseReply\<close> the one to the
  \<open>release\<close> query.
\<close>

definition workerTransaction ::
  "nat option \<Rightarrow> nat \<Rightarrow> js_error + nat \<Rightarrow> callbackRun \<Rightarrow> settled \<Rightarrow> transactionRun" where
  "workerTransaction lockId0 timeout lockReply cb releaseReply =
     (case lockReply of
        Inl e \<Rightarrow>
          \<lparr>txOutcome = Rejected e, txSent = [(MLock timeout, lockId0)], txLogged = [],
           txLockId = lockId0\<rparr>
      | Inr t \<Rightarrow>
          \<lparr>txOutcome = (case releaseReply of
                          Resolved r \<Rightarrow> Resolved JUndefined
                        | Rejected e \<Rightarrow> Rejected e),
           txSent = (MLock timeout, lockId0) # map (\<lambda>q. (q, Some t)) (cbQueries cb)
                      @ [(MRelease, Some t)],
           txLogged = (case cbThrows cb of None \<Rightarrow> [] | Some e \<Rightarrow> [e]),
           txLockId = Some t\<rparr>)"

section \<open>Creating a document\<close>

text \<open>
  The manager of \<open>createDynamicJsonManager(redisClient?)\<close> holds a distributed lock
  exactly when it was given a client, so it is described by \<open>redisClient\<close>: whether a
  client was supplied. The process is the primary or a worker.
\<close>

datatype role = Primary | Worker

text \<open>The object \<open>makeDynamicJson\<close> hands out: the authority of a document or a proxy.\<close>

datatype threadedJson = AuthorityDoc config | ProxyDoc string

text \<open>
  What a call does for its caller: it throws, or it returns a promise. A promise is
  described by the number of \<open>await\<close>s its function passes before the promise
  settles, and by what it settles to (\<open>Inl\<close> a rejection). A call of an
  \<open>async\<close> function never throws: an error raised in its body rejects the promise.
\<close>

datatype 'a called = Throws js_error | Promise nat "js_error + 'a"

fun throwsSync :: "'a called \<Rightarrow> bool" where
  "throwsSync (Throws e) = True"
| "throwsSync (Promise n r) = False"

fun isRedis :: "sourceType \<Rightarrow> bool" where
  "isRedis (Redis u) = True"
| "isRedis s = False"

definition configurationError :: js_error where
  "configurationError =
     Error (''this manager cannot create redis based client with redis connection, ''
            @ ''please create new manager with a valid redis connection'')"

text \<open>
  \<open>makeDynamicJson\<close> (lines 67-155 and 551-553), declared \<open>async function\<close>
  (line 67). The check of lines 86-90 is the first statement after the identity is
  computed and precedes every \<open>await\<close>. In the primary, \<open>inMemory\<close> becomes
  \<open>initialContent || {}\<close> and the store is seeded: for a file, \<open>await fs.exists\<close>
  when there is initial content and \<open>await fs.writeFile\<close> when the file does not
  exist; for the central store, \<open>await redisClient.get\<close> when there is initial
  content and, when nothing is stored, \<open>await lockRedis()\<close> (line 141), which is
  called before \<open>lockId\<close> and \<open>primaryLock\<close> are initialised (lines 333 and 367)
  and throws. A worker gets its proxy with no \<open>await\<close>.
\<close>

definition makeDynamicJson ::
  "runtime \<Rightarrow> bool \<Rightarrow> role \<Rightarrow> sourceType \<Rightarrow> jsv \<Rightarrow> world
     \<Rightarrow> threadedJson called \<times> world" where
  "makeDynamicJson rt redisClient r src initialContent w =
     (if isRedis src \<and> \<not> redisClient then (Promise 0 (Inl configurationError), w)
      else
        (case r of
           Worker \<Rightarrow> (Promise 0 (Inr (ProxyDoc (uniqueEventId src))), w)
         | Primary \<Rightarrow>
             (let cfg = \<lparr>source = src, hasRedisClient = redisClient\<rparr>;
                  w1 = w\<lparr>inMemory := (if truthy initialContent then initialContent
                                       else JObj [])\<rparr>
              in case src of
                   JsonFile p \<Rightarrow>
                     if truthy initialContent then
                       (if files w p = None
                        then (Promise 2 (Inr (AuthorityDoc cfg)),
                              w1\<lparr>files := (files w1)(p \<mapsto> stringify rt initialContent)\<rparr>)
                        else (Promise 1 (Inr (AuthorityDoc cfg)), w1))
                     else (Promise 0 (Inr (AuthorityDoc cfg)), w1)
                 | Redis u \<Rightarrow>
                     if truthy initialContent then
                       (if (case redisKeys w u of None \<Rightarrow> True | Some t \<Rightarrow> t = [])
                        then (Promise 2 (Inl ReferenceError), w)
                        else (Promise 1 (Inr (AuthorityDoc cfg)), w1))
                     else (Promise 0 (Inr (AuthorityDoc cfg)), w1)
                 | InMemory u \<Rightarrow> (Promise 0 (Inr (AuthorityDoc cfg)), w1))))"

section \<open>Example documents\<close>

definition memoryDoc :: config where
  "memoryDoc = \<lparr>source = InMemory ''doc'', hasRedisClient = False\<rparr>"

definition fileDoc :: config where
  "fileDoc = \<lparr>source = JsonFile ''doc.json'', hasRedisClient = False\<rparr>"

definition redisDoc :: config where
  "redisDoc = \<lparr>source = Redis ''doc'', hasRedisClient = True\<rparr>"

definition unlocked :: auth where
  "unlocked = \<lparr>lockId = None, primaryLocked = False\<rparr>"

text \<open>A world with no file and no key, whose in-memory variable holds \<open>d\<close>.\<close>

definition holding :: "jsv \<Rightarrow> world" where
  "holding d = \<lparr>inMemory = d, files = (\<lambda>p. None), redisKeys = (\<lambda>u. None)\<rparr>"

section \<open>Properties of the selector and of the in-place mutation\<close>

lemma lookupProp_update: "lookupProp (AList.update k v ps) k = v"
  by (simp add: lookupProp_def update_conv')

lemma map_of_insertIndexKey:
  "map_of ps k = None \<Longrightarrow> map_of (insertIndexKey i k v ps) k = Some v"
  by (induction ps) (auto split: option.splits if_splits)

lemma lookupProp_assignOwn: "lookupProp (assignOwn k v ps) k = v"
proof (cases "map_of ps k")
  case None
  then show ?thesis
    by (cases "arrayIndex k")
      (simp_all add: assignOwn_def lookupProp_def map_of_insertIndexKey map_add_def)
next
  case (Some old)
  then show ?thesis
    using lookupProp_update [of k v ps] by (simp add: assignOwn_def)
qed

lemma getProp_primitive: "\<not> isContainer v \<Longrightarrow> getProp v k = Inr c \<Longrightarrow> \<not> isContainer c"
  by (cases v) (auto split: option.splits if_splits)

lemma rsList_primitive: "\<not> isContainer v \<Longrightarrow> \<not> isContainer (rsList ks v)"
proof (induction ks arbitrary: v)
  case Nil
  then show ?case by simp
next
  case (Cons k ks)
  show ?case
  proof (cases "getProp v k")
    case (Inl e)
    then show ?thesis by simp
  next
    case (Inr c)
    with Cons.prems have "\<not> isContainer c" by (rule getProp_primitive)
    with Inr Cons.IH show ?thesis by simp
  qed
qed

lemma getProp_putProp:
  assumes "getProp v k = Inr c" and "isContainer c"
  shows "getProp (putProp v k c') k = Inr c'"
proof (cases v)
  case (JArr xs ps)
  with assms show ?thesis
    by (auto simp: lookupProp_update split: option.splits if_splits)
next
  case (JObj ps)
  then show ?thesis by (simp add: lookupProp_update)
qed (use assms in \<open>auto split: option.splits if_splits\<close>)

text \<open>
  The replacement is seen where the target was read: when the selector resolves to an
  array or an object, resolving it again in the mutated snapshot gives the new value.
\<close>

lemma rsList_replaceAt:
  "isContainer (rsList ks v) \<Longrightarrow> rsList ks (replaceAt ks new v) = new"
proof (induction ks arbitrary: v)
  case Nil
  then show ?case by simp
next
  case (Cons k ks)
  show ?case
  proof (cases "getProp v k")
    case (Inl e)
    with Cons.prems show ?thesis by simp
  next
    case (Inr c)
    with Cons.prems have tgt: "isContainer (rsList ks c)" by simp
    then have "isContainer c" using rsList_primitive by blast
    with Inr have "getProp (putProp v k (replaceAt ks new c)) k = Inr (replaceAt ks new c)"
      by (rule getProp_putProp)
    with Inr Cons.IH [OF tgt] show ?thesis by simp
  qed
qed

text \<open>A written key reads back, except \<open>length\<close> of an array, which resizes it.\<close>

lemma getProp_setProp:
  assumes "setProp rt t k v = Inr t'" and "isArray t \<Longrightarrow> k \<noteq> ''length''"
  shows "getProp t' k = Inr v"
  using assms
  by (cases t)
    (auto simp: lookupProp_update lookupProp_assignOwn nth_append split: option.splits if_splits)

section \<open>What the bodies do to the snapshot\<close>

text \<open>\<open>selector || []\<close> addresses what the selector addresses.\<close>

lemma selPath_orEmpty: "selPath (orEmpty sel) = selPath sel"
  by (cases sel) simp_all

lemma setBody_record:
  assumes "rsList (selPath selector) data = JObj ps"
  shows "setBody rt selector key val data =
           completed (JBool True)
             (replaceAt (selPath selector) (JObj (assignOwn key val ps)) data)"
  using assms by (simp add: setBody_def selPath_orEmpty)

lemma setBody_other_shape:
  assumes "\<And>ps. rsList (selPath selector) data \<noteq> JObj ps"
  shows "setBody rt selector key val data = softFail data"
proof (cases "rsList (selPath selector) data")
  case (JObj ps)
  with assms show ?thesis by blast
qed (simp_all add: setBody_def selPath_orEmpty)

lemma jsSplice_in_range:
  assumes "0 \<le> start" and "start \<le> int (length xs)" and "0 \<le> deleteCount"
  shows "jsSplice xs start deleteCount =
           (take (nat deleteCount) (drop (nat start) xs),
            take (nat start) xs @ drop (nat start + nat deleteCount) xs)"
proof -
  let ?s = "nat start"
  let ?d = "nat (min deleteCount (int (length xs) - start))"
  from assms have js: "jsSplice xs start deleteCount =
      (take ?d (drop ?s xs), take ?s xs @ drop (?s + ?d) xs)"
    by (simp add: jsSplice_def Let_def min_def max_def)
  from assms have d: "?d = min (nat deleteCount) (length xs - ?s)" by (simp add: min_def) linarith
  have "take ?d (drop ?s xs) = take (nat deleteCount) (drop ?s xs)"
    unfolding d by (simp add: min_def)
  moreover have "drop (?s + ?d) xs = drop (?s + nat deleteCount) xs"
    unfolding d by (simp add: min_def)
  ultimately show ?thesis using js by simp
qed

text \<open>The removed elements are one block of the array; around it the rest is in order.\<close>

lemma jsSplice_block:
  assumes "jsSplice xs start deleteCount = (removed, rest)"
  shows "\<exists>i. i \<le> length rest \<and> xs = take i rest @ removed @ drop i rest"
proof -
  define s where
    "s = nat (if start < 0 then max (int (length xs) + start) 0
              else min start (int (length xs)))"
  define d where "d = nat (min (max deleteCount 0) (int (length xs) - int s))"
  have s: "s \<le> length xs" by (auto simp: s_def)
  from assms have r: "removed = take d (drop s xs)" "rest = take s xs @ drop (s + d) xs"
    by (auto simp: jsSplice_def Let_def s_def d_def)
  have "take s rest = take s xs" using s by (simp add: r)
  moreover have "drop s rest = drop (s + d) xs" using s by (simp add: r)
  moreover have "take s xs @ take d (drop s xs) @ drop (s + d) xs = xs"
    by (metis append_take_drop_id drop_drop add.commute)
  moreover have "s \<le> length rest" using s by (simp add: r)
  ultimately show ?thesis using r by (intro exI [of _ s]) simp
qed

lemma spliceBody_array:
  assumes "rsList (selPath selector) data = JArr xs ps"
    and "jsSplice xs startIndex deleteCount = (removed, rest)"
  shows "spliceBody selector startIndex deleteCount data =
           completed (JArr removed []) (replaceAt (selPath selector) (JArr rest ps) data)"
  using assms by (simp add: spliceBody_def)

lemma spliceBody_not_array:
  assumes "\<not> isArray (rsList (selPath selector) data)"
  shows "spliceBody selector startIndex deleteCount data = softFail data"
  using assms by (cases "rsList (selPath selector) data") (simp_all add: spliceBody_def)

lemma findIndexFrom_first:
  assumes "findIndexFrom n p xs = Inr (Some i)"
  shows "n \<le> i \<and> i - n < length xs \<and> p i (xs ! (i - n)) = Inr True
         \<and> (\<forall>j. n \<le> j \<and> j < i \<longrightarrow> p j (xs ! (j - n)) = Inr False)"
  using assms
proof (induction xs arbitrary: n)
  case Nil
  then show ?case by simp
next
  case (Cons x xs)
  show ?case
  proof (cases "p n x")
    case (Inl e)
    with Cons.prems show ?thesis by simp
  next
    case (Inr b)
    show ?thesis
    proof (cases b)
      case True
      with Inr Cons.prems show ?thesis by auto
    next
      case False
      with Inr Cons.prems have rest: "findIndexFrom (Suc n) p xs = Inr (Some i)" by simp
      from Cons.IH [OF rest] have ih: "Suc n \<le> i" "i - Suc n < length xs"
        "p i (xs ! (i - Suc n)) = Inr True"
        "\<And>j. Suc n \<le> j \<Longrightarrow> j < i \<Longrightarrow> p j (xs ! (j - Suc n)) = Inr False"
        by auto
      from ih(1) have step: "i - n = Suc (i - Suc n)" by simp
      have before: "p j ((x # xs) ! (j - n)) = Inr False" if "n \<le> j" "j < i" for j
      proof (cases "j = n")
        case True
        with Inr False show ?thesis by simp
      next
        case neq: False
        with that have "Suc n \<le> j" by simp
        with that ih(4) have "p j (xs ! (j - Suc n)) = Inr False" by simp
        moreover from \<open>Suc n \<le> j\<close> have "j - n = Suc (j - Suc n)" by simp
        ultimately show ?thesis by simp
      qed
      from ih step before show ?thesis by auto
    qed
  qed
qed

text \<open>The index found is the first at which the callback says yes.\<close>

lemma findIndex_first:
  assumes "findIndex p xs = Inr (Some i)"
  shows "i < length xs \<and> p i (xs ! i) = Inr True \<and> (\<forall>j<i. p j (xs ! j) = Inr False)"
  using findIndexFrom_first [of 0 p xs i] assms by (simp add: findIndex_def)

lemma findIndexFrom_none:
  assumes "findIndexFrom n p xs = Inr None"
  shows "\<forall>j<length xs. p (n + j) (xs ! j) = Inr False"
  using assms
proof (induction xs arbitrary: n)
  case Nil
  then show ?case by simp
next
  case (Cons x xs)
  from Cons.prems have here: "p n x = Inr False"
    by (auto split: sum.splits bool.splits)
  with Cons.prems have "findIndexFrom (Suc n) p xs = Inr None" by simp
  from Cons.IH [OF this] have rest: "\<And>j. j < length xs \<Longrightarrow> p (Suc n + j) (xs ! j) = Inr False"
    by simp
  show ?case
  proof (intro allI impI)
    fix j
    assume "j < length (x # xs)"
    then show "p (n + j) ((x # xs) ! j) = Inr False"
      using here rest by (cases j) simp_all
  qed
qed

lemma findIndex_none:
  assumes "findIndex p xs = Inr None"
  shows "\<forall>j<length xs. p j (xs ! j) = Inr False"
  using findIndexFrom_none [of 0 p xs] assms by (simp add: findIndex_def)

text \<open>
  What \<open>removeItemFromArray\<close> does with a key: the element found first is taken out,
  and without a match nothing changes.
\<close>

lemma removeItemFromArrayBody_match:
  assumes "rsList (selPath selector) data = JArr xs ps"
    and "k \<noteq> []"
    and "findIndex (\<lambda>j. fieldsLooseEq rt k item j) xs = Inr (Some i)"
  shows "removeItemFromArrayBody rt selector item (KeyStr k) data =
           completed (JBool True)
             (replaceAt (selPath selector) (JArr (take i xs @ drop (Suc i) xs) ps) data)"
  using assms by (simp add: removeItemFromArrayBody_def)

lemma removeItemFromArrayBody_no_match:
  assumes "rsList (selPath selector) data = JArr xs ps"
    and "k \<noteq> []"
    and "findIndex (\<lambda>j. fieldsLooseEq rt k item j) xs = Inr None"
  shows "removeItemFromArrayBody rt selector item (KeyStr k) data = softFail data"
  using assms by (simp add: removeItemFromArrayBody_def)

text \<open>
  What \<open>updateItemInArray\<close> does to a located record: its properties are kept and the
  argument is stored under the key \<open>updatedItem\<close>.
\<close>

lemma updateItemInArrayBody_record:
  assumes "rsList (selPath selector) data = JArr xs qs"
    and "k \<noteq> []"
    and "findIndex (\<lambda>j. fieldsLooseEq rt k item j) xs = Inr (Some i)"
    and "xs ! i = JObj ps"
  shows "updateItemInArrayBody rt selector item updatedItem (KeyStr k) data =
           completed (JBool True)
             (replaceAt (selPath selector)
                (JArr (xs[i := JObj (AList.update ''updatedItem'' updatedItem ps)]) qs) data)"
  using assms by (simp add: updateItemInArrayBody_def)

text \<open>
  For a file-backed document a replaced content is read back when it is truthy and
  survives the round trip through the serialised text.
\<close>

lemma replaceAll_file_read_back:
  assumes "parse rt (stringify rt content) = Inr content" and "truthy content"
  shows "get rt \<lparr>source = JsonFile p, hasRedisClient = c\<rparr> (SelList [])
           (snd (updateJsonFromProvided rt \<lparr>source = JsonFile p, hasRedisClient = c\<rparr> a acquired
                   content w))
         = Resolved content"
  using assms
  by (simp add: get_def updateJsonFromProvided_def lockMethod_def lockRedis_def update_def
      getAllData_def recursiveSelect_def)

section \<open>What a wrapped operation resolves to\<close>

lemma lockMethod_settles:
  "fst (lockMethod cfg a acquired method w) =
     (if lockRedis cfg a False acquired then Resolved JUndefined
      else Rejected (Error (''failed to acquire redis Lock '' @ uniqueEventId (source cfg))))"
  by (simp add: lockMethod_def)

lemma lockMethod_not_value:
  "v \<noteq> JUndefined \<Longrightarrow> fst (lockMethod cfg a acquired method w) \<noteq> Resolved v"
  by (auto simp: lockMethod_def)

lemmas memory_simps = lockMethod_def lockRedis_def runBody_def getAllData_def inPlace_def
  update_def memoryDoc_def unlocked_def holding_def completed_def softFail_def thrown_def
  lookupProp_def findIndex_def assignOwn_def arrayIndex_def digitTable_def

text \<open>
  C2. The claim: the authority's \<open>set\<close> resolves to \<open>true\<close> when the resolved target is
  a non-null, non-array object, and to \<open>false\<close> for any other shape. In the code the
  promise of \<open>setDirect\<close> never resolves to a boolean: on the in-memory document
  \<open>{}\<close>, \<open>set([], "a", 1)\<close> writes the key and resolves to \<open>undefined\<close>, and on
  \<open>{list: []}\<close>, \<open>set(["list"], "a", 1)\<close> changes nothing and resolves to
  \<open>undefined\<close> as well.
\<close>

theorem C2_set_resolves_undefined:
  "fst (setDirect rt cfg a acquired selector key val w) \<noteq> Resolved (JBool b)
   \<and> setDirect rt memoryDoc unlocked acquired (SelList []) ''a'' (JNum 1) (holding (JObj []))
       = (Resolved JUndefined, holding (JObj [(''a'', JNum 1)]))
   \<and> setDirect rt memoryDoc unlocked acquired (SelList [''list'']) ''a'' (JNum 1)
         (holding (JObj [(''list'', JArr [] [])]))
       = (Resolved JUndefined, holding (JObj [(''list'', JArr [] [])]))"
proof (intro conjI)
  show "fst (setDirect rt cfg a acquired selector key val w) \<noteq> Resolved (JBool b)"
    unfolding setDirect_def by (rule lockMethod_not_value) simp
  show "setDirect rt memoryDoc unlocked acquired (SelList []) ''a'' (JNum 1) (holding (JObj []))
       = (Resolved JUndefined, holding (JObj [(''a'', JNum 1)]))"
    by (simp add: setDirect_def setBody_def memory_simps)
  show "setDirect rt memoryDoc unlocked acquired (SelList [''list'']) ''a'' (JNum 1)
         (holding (JObj [(''list'', JArr [] [])]))
       = (Resolved JUndefined, holding (JObj [(''list'', JArr [] [])]))"
    by (simp add: setDirect_def setBody_def memory_simps)
qed

text \<open>
  C3. The claim: after \<open>replaceAll(content)\<close> a \<open>get([])\<close> returns exactly
  \<open>content\<close>, for each of the three sources. In the code, on the in-memory document
  \<open>{a: 1}\<close>, \<open>updateJsonFromProvided({b: 2})\<close> leaves \<open>{a: 1}\<close> to be read; on a
  central-store document the following \<open>get([])\<close> gives the stored text as a string
  (or \<open>{}\<close> if that text were empty), not the object.
\<close>

theorem C3_replaceAll_not_read_back:
  "get rt memoryDoc (SelList [])
     (snd (updateJsonFromProvided rt memoryDoc unlocked acquired (JObj [(''b'', JNum 2)])
             (holding (JObj [(''a'', JNum 1)]))))
     = Resolved (JObj [(''a'', JNum 1)])
   \<and> get rt redisDoc (SelList [])
       (snd (updateJsonFromProvided rt redisDoc unlocked True (JObj [(''b'', JNum 2)])
               (holding (JObj [(''a'', JNum 1)]))))
     = Resolved (if stringify rt (JObj [(''b'', JNum 2)]) = [] then JObj []
                 else JStr (stringify rt (JObj [(''b'', JNum 2)])))"
  by (simp add: updateJsonFromProvided_def get_def recursiveSelect_def redisDoc_def memory_simps)

text \<open>
  C4. The claim: \<open>updateItemInArray\<close> merges the fields of \<open>updatedItem\<close> onto a
  located record and returns \<open>true\<close> on a match, \<open>false\<close> otherwise. In the code the
  promise never resolves to a boolean, and on \<open>{list: [{id: 1, a: 1}]}\<close> the call
  \<open>updateItemInArray(["list"], {id: 1}, {a: 2}, "id")\<close> leaves the field \<open>a\<close> at 1 and
  stores the whole argument under a new key \<open>updatedItem\<close>.
\<close>

theorem C4_updateItemInArray_nests_and_resolves_undefined:
  "fst (updateItemInArrayDirect rt cfg a acquired selector item updatedItem key w)
     \<noteq> Resolved (JBool b)
   \<and> updateItemInArrayDirect rt memoryDoc unlocked acquired (SelList [''list''])
         (JObj [(''id'', JNum 1)]) (JObj [(''a'', JNum 2)]) (KeyStr ''id'')
         (holding (JObj [(''list'', JArr [JObj [(''id'', JNum 1), (''a'', JNum 1)]] [])]))
       = (Resolved JUndefined,
          holding (JObj [(''list'', JArr [JObj [(''id'', JNum 1), (''a'', JNum 1),
                                               (''updatedItem'', JObj [(''a'', JNum 2)])]] [])]))"
proof (intro conjI)
  show "fst (updateItemInArrayDirect rt cfg a acquired selector item updatedItem key w)
          \<noteq> Resolved (JBool b)"
    unfolding updateItemInArrayDirect_def by (rule lockMethod_not_value) simp
  show "updateItemInArrayDirect rt memoryDoc unlocked acquired (SelList [''list''])
         (JObj [(''id'', JNum 1)]) (JObj [(''a'', JNum 2)]) (KeyStr ''id'')
         (holding (JObj [(''list'', JArr [JObj [(''id'', JNum 1), (''a'', JNum 1)]] [])]))
       = (Resolved JUndefined,
          holding (JObj [(''list'', JArr [JObj [(''id'', JNum 1), (''a'', JNum 1),
                                               (''updatedItem'', JObj [(''a'', JNum 2)])]] [])]))"
    by (simp add: updateItemInArrayDirect_def updateItemInArrayBody_def fieldsLooseEq_def
        memory_simps)
qed

text \<open>
  C5. The claim: \<open>splice\<close> resolves to the removed sub-sequence, or to \<open>false\<close> when
  the target is not an array. In the code the promise of \<open>spliceDirect\<close> never
  resolves to an array or a boolean: on \<open>{list: [1, 2, 3, 4]}\<close>,
  \<open>splice(["list"], 1, 2)\<close> leaves \<open>[1, 4]\<close> and resolves to \<open>undefined\<close>.
\<close>

theorem C5_splice_resolves_undefined:
  "fst (spliceDirect rt cfg a acquired selector startIndex deleteCount w)
     \<noteq> Resolved (JArr removed ps)
   \<and> fst (spliceDirect rt cfg a acquired selector startIndex deleteCount w)
       \<noteq> Resolved (JBool b)
   \<and> spliceDirect rt memoryDoc unlocked acquired (SelList [''list'']) 1 2
         (holding (JObj [(''list'', JArr [JNum 1, JNum 2, JNum 3, JNum 4] [])]))
       = (Resolved JUndefined, holding (JObj [(''list'', JArr [JNum 1, JNum 4] [])]))"
proof (intro conjI)
  show "fst (spliceDirect rt cfg a acquired selector startIndex deleteCount w)
          \<noteq> Resolved (JArr removed ps)"
    unfolding spliceDirect_def by (rule lockMethod_not_value) simp
  show "fst (spliceDirect rt cfg a acquired selector startIndex deleteCount w)
          \<noteq> Resolved (JBool b)"
    unfolding spliceDirect_def by (rule lockMethod_not_value) simp
  show "spliceDirect rt memoryDoc unlocked acquired (SelList [''list'']) 1 2
         (holding (JObj [(''list'', JArr [JNum 1, JNum 2, JNum 3, JNum 4] [])]))
       = (Resolved JUndefined, holding (JObj [(''list'', JArr [JNum 1, JNum 4] [])]))"
    by (simp add: spliceDirect_def spliceBody_def jsSplice_def memory_simps)
qed

text \<open>
  C6. The claim: \<open>removeItemFromArray\<close> with a key removes the first element whose key
  field equals the item's and resolves to \<open>true\<close>, and resolves to \<open>false\<close> with the
  sequence unchanged when nothing matches. In the code the promise never resolves to
  a boolean: on \<open>{list: [{id: 1}, {id: 2}]}\<close>, removing \<open>{id: 2}\<close> by \<open>"id"\<close> removes
  the element and resolves to \<open>undefined\<close>, and removing the absent \<open>{id: 3}\<close>
  changes nothing and resolves to \<open>undefined\<close> too.
\<close>

theorem C6_removeItemFromArray_resolves_undefined:
  "fst (removeItemFromArrayDirect rt cfg a acquired selector item key w) \<noteq> Resolved (JBool b)
   \<and> removeItemFromArrayDirect rt memoryDoc unlocked acquired (SelList [''list''])
         (JObj [(''id'', JNum 2)]) (KeyStr ''id'')
         (holding (JObj [(''list'', JArr [JObj [(''id'', JNum 1)], JObj [(''id'', JNum 2)]] [])]))
       = (Resolved JUndefined, holding (JObj [(''list'', JArr [JObj [(''id'', JNum 1)]] [])]))
   \<and> removeItemFromArrayDirect rt memoryDoc unlocked acquired (SelList [''list''])
         (JObj [(''id'', JNum 3)]) (KeyStr ''id'')
         (holding (JObj [(''list'', JArr [JObj [(''id'', JNum 1)], JObj [(''id'', JNum 2)]] [])]))
       = (Resolved JUndefined,
          holding (JObj [(''list'', JArr [JObj [(''id'', JNum 1)], JObj [(''id'', JNum 2)]] [])]))"
proof (intro conjI)
  show "fst (removeItemFromArrayDirect rt cfg a acquired selector item key w)
          \<noteq> Resolved (JBool b)"
    unfolding removeItemFromArrayDirect_def by (rule lockMethod_not_value) simp
qed (simp_all add: removeItemFromArrayDirect_def removeItemFromArrayBody_def fieldsLooseEq_def
      memory_simps)

section \<open>The set of a batch against the standalone set\<close>

lemma nonnull_object_container: "(typeofObject t \<and> truthy t) = isContainer t"
  by (cases t) simp_all

lemma batchStep_set:
  assumes "typeofObject (rsList (selPath sel) data)" and "truthy (rsList (selPath sel) data)"
  shows "batchStep rt \<lparr>qtype = QSet, qselector = sel, qkey = key, qvalue = val\<rparr> data =
           (case setProp rt (rsList (selPath sel) data) key val of
              Inl e \<Rightarrow> Inl e
            | Inr t \<Rightarrow> Inr (replaceAt (selPath sel) t data))"
  using assms by (simp add: batchStep_def Let_def)

lemma setProp_container:
  assumes "isContainer t" and "isArray t \<Longrightarrow> k \<noteq> ''length''"
  shows "\<exists>t'. setProp rt t k v = Inr t'"
  using assms by (cases t) (auto split: option.splits)

lemma batchStep_set_reads_back:
  assumes tgt: "typeofObject (rsList (selPath sel) data)" "truthy (rsList (selPath sel) data)"
    and len: "isArray (rsList (selPath sel) data) \<Longrightarrow> key \<noteq> ''length''"
  shows "\<exists>data'. batchStep rt \<lparr>qtype = QSet, qselector = sel, qkey = key, qvalue = val\<rparr> data
                    = Inr data'
                \<and> getProp (rsList (selPath sel) data') key = Inr val"
proof -
  from tgt have c: "isContainer (rsList (selPath sel) data)"
    by (simp add: nonnull_object_container [symmetric])
  with len obtain t' where t': "setProp rt (rsList (selPath sel) data) key val = Inr t'"
    using setProp_container by blast
  from t' len have "getProp t' key = Inr val" by (rule getProp_setProp)
  moreover from c have "rsList (selPath sel) (replaceAt (selPath sel) t' data) = t'"
    by (rule rsList_replaceAt)
  ultimately show ?thesis using tgt t' by (simp add: batchStep_set)
qed

lemma setBody_array:
  "isArray (rsList (selPath sel) data) \<Longrightarrow> setBody rt sel key val data = softFail data"
  by (simp add: setBody_def Let_def selPath_orEmpty)

text \<open>
  C10. A \<open>set\<close> query of a batch performs the assignment \<open>target[key] = value\<close> on
  every non-null object, arrays included: the step is that assignment done in place,
  and the key then reads back from the target (for an array, any key but \<open>length\<close>,
  which resizes the array instead). The standalone \<open>set\<close> refuses an array target.
  So on the snapshot \<open>{list: [1, 2]}\<close> the batch of the single query
  \<open>set "list" "0" 9\<close> changes the document to \<open>{list: [9, 2]}\<close>, while
  \<open>set(["list"], "0", 9)\<close> leaves it as it was.
\<close>

theorem C10_batch_set_writes_arrays:
  "(typeofObject (rsList (selPath sel) data) \<and> truthy (rsList (selPath sel) data) \<longrightarrow>
      batchStep rt \<lparr>qtype = QSet, qselector = sel, qkey = key, qvalue = val\<rparr> data =
        (case setProp rt (rsList (selPath sel) data) key val of
           Inl e \<Rightarrow> Inl e
         | Inr t \<Rightarrow> Inr (replaceAt (selPath sel) t data)))
   \<and> (typeofObject (rsList (selPath sel) data) \<and> truthy (rsList (selPath sel) data)
        \<and> (isArray (rsList (selPath sel) data) \<longrightarrow> key \<noteq> ''length'') \<longrightarrow>
      (\<exists>data'. batchStep rt \<lparr>qtype = QSet, qselector = sel, qkey = key, qvalue = val\<rparr> data
                  = Inr data'
              \<and> getProp (rsList (selPath sel) data') key = Inr val))
   \<and> (isArray (rsList (selPath sel) data) \<longrightarrow>
        setBody rt sel key val data = softFail data)
   \<and> isArray (rsList (selPath (SelList [''list''])) (JObj [(''list'', JArr [JNum 1, JNum 2] [])]))
   \<and> snd (batchSetDirect rt memoryDoc unlocked acquired
             [\<lparr>qtype = QSet, qselector = SelList [''list''], qkey = ''0'', qvalue = JNum 9\<rparr>]
             (holding (JObj [(''list'', JArr [JNum 1, JNum 2] [])])))
       = holding (JObj [(''list'', JArr [JNum 9, JNum 2] [])])
   \<and> snd (setDirect rt memoryDoc unlocked acquired (SelList [''list'']) ''0'' (JNum 9)
             (holding (JObj [(''list'', JArr [JNum 1, JNum 2] [])])))
       = holding (JObj [(''list'', JArr [JNum 1, JNum 2] [])])"
proof (intro conjI impI)
  assume "typeofObject (rsList (selPath sel) data) \<and> truthy (rsList (selPath sel) data)"
  then show "batchStep rt \<lparr>qtype = QSet, qselector = sel, qkey = key, qvalue = val\<rparr> data =
        (case setProp rt (rsList (selPath sel) data) key val of
           Inl e \<Rightarrow> Inl e
         | Inr t \<Rightarrow> Inr (replaceAt (selPath sel) t data))"
    by (simp add: batchStep_set)
next
  assume "typeofObject (rsList (selPath sel) data) \<and> truthy (rsList (selPath sel) data)
        \<and> (isArray (rsList (selPath sel) data) \<longrightarrow> key \<noteq> ''length'')"
  then show "\<exists>data'. batchStep rt \<lparr>qtype = QSet, qselector = sel, qkey = key, qvalue = val\<rparr> data
                  = Inr data'
              \<and> getProp (rsList (selPath sel) data') key = Inr val"
    using batchStep_set_reads_back by blast
next
  assume "isArray (rsList (selPath sel) data)"
  then show "setBody rt sel key val data = softFail data" by (rule setBody_array)
next
  show "isArray (rsList (selPath (SelList [''list''])) (JObj [(''list'', JArr [JNum 1, JNum 2] [])]))"
    by (simp add: lookupProp_def)
next
  show "snd (batchSetDirect rt memoryDoc unlocked acquired
             [\<lparr>qtype = QSet, qselector = SelList [''list''], qkey = ''0'', qvalue = JNum 9\<rparr>]
             (holding (JObj [(''list'', JArr [JNum 1, JNum 2] [])])))
       = holding (JObj [(''list'', JArr [JNum 9, JNum 2] [])])"
    by (simp add: batchSetDirect_def batchStep_def Let_def arrayIndex_def digitTable_def memory_simps)
next
  show "snd (setDirect rt memoryDoc unlocked acquired (SelList [''list'']) ''0'' (JNum 9)
             (holding (JObj [(''list'', JArr [JNum 1, JNum 2] [])])))
       = holding (JObj [(''list'', JArr [JNum 1, JNum 2] [])])"
    by (simp add: setDirect_def setBody_def memory_simps)
qed

text \<open>The theorem at the snapshot \<open>{list: [1, 2]}\<close>, selector \<open>["list"]\<close>, key \<open>"0"\<close>.\<close>

theorem C10_batch_set_writes_arrays_witness:
  "\<forall>rt. typeofObject (rsList (selPath (SelList [''list''])) (JObj [(''list'', JArr [JNum 1, JNum 2] [])]))
     \<and> truthy (rsList (selPath (SelList [''list''])) (JObj [(''list'', JArr [JNum 1, JNum 2] [])]))
     \<and> isArray (rsList (selPath (SelList [''list''])) (JObj [(''list'', JArr [JNum 1, JNum 2] [])]))
     \<and> ''0'' \<noteq> ''length''
     \<and> batchStep rt \<lparr>qtype = QSet, qselector = SelList [''list''], qkey = ''0'', qvalue = JNum 9\<rparr>
          (JObj [(''list'', JArr [JNum 1, JNum 2] [])])
        = Inr (JObj [(''list'', JArr [JNum 9, JNum 2] [])])
     \<and> setBody rt (SelList [''list'']) ''0'' (JNum 9) (JObj [(''list'', JArr [JNum 1, JNum 2] [])])
        = softFail (JObj [(''list'', JArr [JNum 1, JNum 2] [])])"
proof
  fix rt
  have tgt: "rsList (selPath (SelList [''list''])) (JObj [(''list'', JArr [JNum 1, JNum 2] [])])
               = JArr [JNum 1, JNum 2] []"
    by (simp add: lookupProp_def)
  have idx: "arrayIndex ''0'' = Some 0" by (simp add: arrayIndex_def digitTable_def)
  show "typeofObject (rsList (selPath (SelList [''list''])) (JObj [(''list'', JArr [JNum 1, JNum 2] [])]))
     \<and> truthy (rsList (selPath (SelList [''list''])) (JObj [(''list'', JArr [JNum 1, JNum 2] [])]))
     \<and> isArray (rsList (selPath (SelList [''list''])) (JObj [(''list'', JArr [JNum 1, JNum 2] [])]))
     \<and> ''0'' \<noteq> ''length''
     \<and> batchStep rt \<lparr>qtype = QSet, qselector = SelList [''list''], qkey = ''0'', qvalue = JNum 9\<rparr>
          (JObj [(''list'', JArr [JNum 1, JNum 2] [])])
        = Inr (JObj [(''list'', JArr [JNum 9, JNum 2] [])])
     \<and> setBody rt (SelList [''list'']) ''0'' (JNum 9) (JObj [(''list'', JArr [JNum 1, JNum 2] [])])
        = softFail (JObj [(''list'', JArr [JNum 1, JNum 2] [])])"
    using C10_batch_set_writes_arrays [of "SelList [''list'']" "JObj [(''list'', JArr [JNum 1, JNum 2] [])]"
        rt "''0''" "JNum 9"] tgt idx
    by (simp add: lookupProp_def)
qed

section \<open>Creating a central-store document without a client\<close>

text \<open>
  C9, as amended. A manager built without a store client that is asked for a
  central-store (\<open>redis\<close>) document fails at once with the configuration error, in
  the primary as in a worker and whatever the initial content: the call returns a
  promise that is rejected with that error before any \<open>await\<close>, no document is
  created or returned, and the stores are untouched.
\<close>

theorem C9_redis_without_client_rejects:
  "makeDynamicJson rt False r (Redis uniqueIdentifier) initialContent w
     = (Promise 0 (Inl configurationError), w)"
  by (simp add: makeDynamicJson_def)

text \<open>
  C9, as stated, fails on the word "synchronously": \<open>makeDynamicJson\<close> is an
  \<open>async\<close> function, so the call for a \<open>redis\<close> document on a manager without a
  client does not throw. The caller is handed a promise, and the error is the
  rejection of that promise.
\<close>

theorem C9_call_does_not_throw:
  "\<forall>rt. \<not> throwsSync (fst (makeDynamicJson rt False Primary (Redis ''doc'') JUndefined
                               (holding (JObj []))))
      \<and> fst (makeDynamicJson rt False Primary (Redis ''doc'') JUndefined (holding (JObj [])))
          \<noteq> Throws configurationError"
  by (simp add: makeDynamicJson_def)

section \<open>Release requests at the dispatcher\<close>

lemma waitFor_never: "(\<And>j. \<not> free (polls j)) \<Longrightarrow> waitFor free polls k n = None"
  by (induction n arbitrary: k) simp_all

lemma waitFor_free: "waitFor free polls k n = Some j \<Longrightarrow> free (polls j)"
  by (induction n arbitrary: k) (auto split: if_splits)

lemma awaitToken_passed:
  "awaitToken polls presented (a, k) = Inr a' \<Longrightarrow>
     (held (lockId a) \<and> presented \<noteq> lockId a \<and> \<not> held (lockId a')) \<or>
     (\<not> (held (lockId a) \<and> presented \<noteq> lockId a) \<and> a' = a)"
  by (auto simp: awaitToken_def waitForLockIdRelease_def split: if_splits option.splits
      dest: waitFor_free)

text \<open>
  A query of a type the dispatcher does not know is answered with \<open>undefined\<close> and
  does nothing. The proxy's \<open>updateJsonFromProvided\<close> (lines 613-619) sends the type
  \<open>"data"\<close>, which is such a type.
\<close>

lemma handleQuery_unknown_type:
  "msgQuery msg = MOther t \<Longrightarrow>
     handleQuery rt cfg acquired fresh msg a w = (Result (queryId msg) JUndefined, a, w)"
  by (simp add: handleQuery_def)

text \<open>
  C7, as amended. For every release request addressed to the document that arrives
  while the authority-busy flag is clear: when the presented token is the active token,
  the token is cleared and the acknowledgement \<open>true\<close> is sent; when no token is
  active or the presented token differs from the active one, an error response is
  sent. In both cases the stores are untouched.
\<close>

theorem C7_release_when_not_busy:
  assumes "request msg = uniqueEventId (source cfg)"
    and "msgQuery msg = MRelease"
    and "\<not> primaryLocked a"
  shows "(held (lockId a) \<and> msgLockId msg = lockId a \<longrightarrow>
            createWorkerListener rt cfg acquired fresh polls msg a w
              = (Some (Result (queryId msg) (JBool True)), a\<lparr>lockId := None\<rparr>, w))
       \<and> (\<not> (held (lockId a) \<and> msgLockId msg = lockId a) \<longrightarrow>
            isFailure (fst (createWorkerListener rt cfg acquired fresh polls msg a w))
            \<and> snd (snd (createWorkerListener rt cfg acquired fresh polls msg a w)) = w)"
proof (intro conjI impI)
  assume "held (lockId a) \<and> msgLockId msg = lockId a"
  with assms show "createWorkerListener rt cfg acquired fresh polls msg a w
              = (Some (Result (queryId msg) (JBool True)), a\<lparr>lockId := None\<rparr>, w)"
    by (simp add: createWorkerListener_def awaitPrimary_def awaitToken_def handleQuery_def)
next
  assume no: "\<not> (held (lockId a) \<and> msgLockId msg = lockId a)"
  show "isFailure (fst (createWorkerListener rt cfg acquired fresh polls msg a w))"
  proof (cases "awaitToken polls (msgLockId msg) (a, 0)")
    case (Inl ea)
    with assms show ?thesis
      by (cases ea) (simp add: createWorkerListener_def awaitPrimary_def)
  next
    case (Inr a')
    from awaitToken_passed [OF Inr] no have "\<not> held (lockId a')" by auto
    with assms Inr show ?thesis
      by (simp add: createWorkerListener_def awaitPrimary_def handleQuery_def)
  qed
  show "snd (snd (createWorkerListener rt cfg acquired fresh polls msg a w)) = w"
    using assms
    by (auto simp: createWorkerListener_def awaitPrimary_def handleQuery_def Let_def
        split: sum.splits prod.splits)
qed

text \<open>
  The theorem at a request presenting the active token 7, and at one presenting 8
  while 7 is active.
\<close>

theorem C7_release_when_not_busy_witness:
  "\<forall>rt. createWorkerListener rt memoryDoc True 0 (\<lambda>k. unlocked)
           \<lparr>request = ''doc'', queryId = 1, msgQuery = MRelease, msgLockId = Some 7\<rparr>
           \<lparr>lockId = Some 7, primaryLocked = False\<rparr> (holding (JObj []))
         = (Some (Result 1 (JBool True)), \<lparr>lockId = None, primaryLocked = False\<rparr>,
            holding (JObj []))
     \<and> isFailure (fst (createWorkerListener rt memoryDoc True 0 (\<lambda>k. unlocked)
           \<lparr>request = ''doc'', queryId = 1, msgQuery = MRelease, msgLockId = Some 8\<rparr>
           \<lparr>lockId = Some 7, primaryLocked = False\<rparr> (holding (JObj []))))"
proof
  fix rt
  show "createWorkerListener rt memoryDoc True 0 (\<lambda>k. unlocked)
           \<lparr>request = ''doc'', queryId = 1, msgQuery = MRelease, msgLockId = Some 7\<rparr>
           \<lparr>lockId = Some 7, primaryLocked = False\<rparr> (holding (JObj []))
         = (Some (Result 1 (JBool True)), \<lparr>lockId = None, primaryLocked = False\<rparr>,
            holding (JObj []))
     \<and> isFailure (fst (createWorkerListener rt memoryDoc True 0 (\<lambda>k. unlocked)
           \<lparr>request = ''doc'', queryId = 1, msgQuery = MRelease, msgLockId = Some 8\<rparr>
           \<lparr>lockId = Some 7, primaryLocked = False\<rparr> (holding (JObj []))))"
    using C7_release_when_not_busy [of
        "\<lparr>request = ''doc'', queryId = 1, msgQuery = MRelease, msgLockId = Some 7\<rparr>"
        memoryDoc "\<lparr>lockId = Some 7, primaryLocked = False\<rparr>" rt True 0 "\<lambda>k. unlocked"
        "holding (JObj [])"]
      C7_release_when_not_busy [of
        "\<lparr>request = ''doc'', queryId = 1, msgQuery = MRelease, msgLockId = Some 8\<rparr>"
        memoryDoc "\<lparr>lockId = Some 7, primaryLocked = False\<rparr>" rt True 0 "\<lambda>k. unlocked"
        "holding (JObj [])"]
    by (simp add: memoryDoc_def)
qed

text \<open>
  C7, as stated, fails when the authority is busy: a release request presenting the
  active token 7 arrives while \<open>primaryLock.locked\<close> is set and stays set for the 30
  looks of the waiting loop. The request is answered with an error and the token is
  still active.
\<close>

theorem C7_release_while_busy_fails:
  "\<forall>rt. createWorkerListener rt redisDoc True 0 (\<lambda>k. \<lparr>lockId = Some 7, primaryLocked = True\<rparr>)
           \<lparr>request = ''doc'', queryId = 1, msgQuery = MRelease, msgLockId = Some 7\<rparr>
           \<lparr>lockId = Some 7, primaryLocked = True\<rparr> (holding (JObj []))
         = (Some (Failure 1 (Error ''Could not acquire primary lock for operation'')),
            \<lparr>lockId = Some 7, primaryLocked = True\<rparr>, holding (JObj []))"
  by (simp add: createWorkerListener_def awaitPrimary_def waitForPrimaryLockIdRelease_def
      waitFor_never redisDoc_def)

section \<open>The transaction of the worker proxy\<close>

text \<open>
  C8, as amended. Once the lock is granted, for every callback, whether it returns or
  throws: the proxy sends the release request after everything the callback sent; an
  error of the callback is logged and nothing else; the transaction settles as the
  release request does (it resolves when the release is acknowledged and rejects with
  the error of the release otherwise), so its outcome is the same whatever the
  callback did.
\<close>

theorem C8_worker_transaction_releases:
  assumes "lockReply = Inr t"
  shows "txSent (workerTransaction l timeout lockReply cb releaseReply)
           = (MLock timeout, l) # map (\<lambda>q. (q, Some t)) (cbQueries cb) @ [(MRelease, Some t)]
       \<and> txLogged (workerTransaction l timeout lockReply cb releaseReply)
           = (case cbThrows cb of None \<Rightarrow> [] | Some e \<Rightarrow> [e])
       \<and> txOutcome (workerTransaction l timeout lockReply cb releaseReply)
           = (case releaseReply of Resolved r \<Rightarrow> Resolved JUndefined | Rejected e \<Rightarrow> Rejected e)
       \<and> txOutcome (workerTransaction l timeout lockReply cb releaseReply)
           = txOutcome (workerTransaction l timeout lockReply cb' releaseReply)"
  using assms by (simp add: workerTransaction_def)

text \<open>
  The theorem at a callback that sends one \<open>set\<close> and then throws, with the release
  acknowledged.
\<close>

theorem C8_worker_transaction_releases_witness:
  "txSent (workerTransaction None 5000 (Inr 7)
             \<lparr>cbQueries = [MSet (SelList []) ''a'' (JNum 1)], cbThrows = Some (Error ''boom'')\<rparr>
             (Resolved (JBool True)))
     = [(MLock 5000, None), (MSet (SelList []) ''a'' (JNum 1), Some 7), (MRelease, Some 7)]
   \<and> txLogged (workerTransaction None 5000 (Inr 7)
             \<lparr>cbQueries = [MSet (SelList []) ''a'' (JNum 1)], cbThrows = Some (Error ''boom'')\<rparr>
             (Resolved (JBool True)))
     = [Error ''boom'']
   \<and> txOutcome (workerTransaction None 5000 (Inr 7)
             \<lparr>cbQueries = [MSet (SelList []) ''a'' (JNum 1)], cbThrows = Some (Error ''boom'')\<rparr>
             (Resolved (JBool True)))
     = Resolved JUndefined"
  using C8_worker_transaction_releases [of "Inr 7" 7 None 5000
      "\<lparr>cbQueries = [MSet (SelList []) ''a'' (JNum 1)], cbThrows = Some (Error ''boom'')\<rparr>"
      "Resolved (JBool True)"]
  by simp

text \<open>
  C8, as stated, fails when the release request is refused, as it is when the token
  has expired while the callback ran: the transaction does not resolve, it rejects
  with the error of the release.
\<close>

theorem C8_transaction_rejects_when_release_fails:
  "txOutcome (workerTransaction None 5000 (Inr 7)
                \<lparr>cbQueries = [], cbThrows = Some (Error ''boom'')\<rparr>
                (Rejected (Error ''there is no lock to release'')))
     = Rejected (Error ''there is no lock to release'')"
  by (simp add: workerTransaction_def)

section \<open>Two concurrent mutations of a file-backed document\<close>

text \<open>
  The named lock does what it is asked: every step keeps the discipline, so at most one
  call is in its wrapper at a time. What it does not cover is the body.
\<close>

lemma holderKept_move:
  assumes inv: "holderKept s" and i: "i < length (phases s)"
    and old: "phases s ! i \<noteq> Holding" and new: "p \<noteq> Holding"
  shows "holderKept (s\<lparr>phases := (phases s)[i := p]\<rparr>)"
  unfolding holderKept_def
proof (intro allI impI)
  fix j
  assume "j < length (phases (s\<lparr>phases := (phases s)[i := p]\<rparr>))"
  then have j: "j < length (phases s)" by simp
  show "(phases (s\<lparr>phases := (phases s)[i := p]\<rparr>) ! j = Holding)
          = (holder (s\<lparr>phases := (phases s)[i := p]\<rparr>) = Some j)"
  proof (cases "j = i")
    case True
    from inv i old have "holder s \<noteq> Some i" by (simp add: holderKept_def)
    with True i new show ?thesis by simp
  next
    case False
    with inv j show ?thesis by (simp add: holderKept_def)
  qed
qed

lemma holderKept_release:
  assumes inv: "holderKept s" and i: "i < length (phases s)"
    and old: "phases s ! i = Holding" and new: "p \<noteq> Holding"
  shows "holderKept (s\<lparr>holder := None, phases := (phases s)[i := p]\<rparr>)"
  unfolding holderKept_def
proof (intro allI impI)
  fix j
  assume "j < length (phases (s\<lparr>holder := None, phases := (phases s)[i := p]\<rparr>))"
  then have j: "j < length (phases s)" by simp
  from inv i old have h: "holder s = Some i" by (simp add: holderKept_def)
  show "(phases (s\<lparr>holder := None, phases := (phases s)[i := p]\<rparr>) ! j = Holding)
          = (holder (s\<lparr>holder := None, phases := (phases s)[i := p]\<rparr>) = Some j)"
  proof (cases "j = i")
    case True
    with i new show ?thesis by simp
  next
    case False
    with inv j h show ?thesis by (simp add: holderKept_def)
  qed
qed

lemma holderKept_acquire:
  assumes inv: "holderKept s" and i: "i < length (phases s)" and free: "holder s = None"
  shows "holderKept (s\<lparr>holder := Some i, phases := (phases s)[i := Holding]\<rparr>)"
  unfolding holderKept_def
proof (intro allI impI)
  fix j
  assume "j < length (phases (s\<lparr>holder := Some i, phases := (phases s)[i := Holding]\<rparr>))"
  then have j: "j < length (phases s)" by simp
  show "(phases (s\<lparr>holder := Some i, phases := (phases s)[i := Holding]\<rparr>) ! j = Holding)
          = (holder (s\<lparr>holder := Some i, phases := (phases s)[i := Holding]\<rparr>) = Some j)"
  proof (cases "j = i")
    case True
    with i show ?thesis by simp
  next
    case False
    with inv j free show ?thesis by (auto simp: holderKept_def)
  qed
qed

lemma holderKept_store: "holderKept (s\<lparr>store := w\<rparr>) = holderKept s"
  by (simp add: holderKept_def)

lemma step_holderKept:
  assumes "holderKept s" and "step rt cfg a acquired bodies ev s = Some s'"
  shows "holderKept s'"
proof (cases ev)
  case (Acquire i)
  with assms show ?thesis
    by (auto simp: step_def split: if_splits intro: holderKept_acquire)
next
  case (Enter i)
  with assms show ?thesis
    by (auto simp: step_def holderKept_store split: if_splits sourceType.splits
        intro!: holderKept_release)
next
  case (Loaded i)
  with assms show ?thesis
    by (auto simp: step_def Let_def split: if_splits sum.splits intro!: holderKept_move)
next
  case (Written i)
  with assms show ?thesis
    by (auto simp: step_def holderKept_store split: if_splits phase.splits
        intro!: holderKept_move)
qed

lemma run_holderKept:
  "holderKept s \<Longrightarrow> run rt cfg a acquired bodies evs s = Some s' \<Longrightarrow> holderKept s'"
proof (induction evs arbitrary: s)
  case Nil
  then show ?case by simp
next
  case (Cons ev evs)
  then show ?case
    by (auto split: option.splits dest: step_holderKept)
qed

text \<open>
  A call that runs alone leaves the world that \<open>lockMethod\<close> gives: for an
  in-memory source when the wrapper returns, for a file or the central store after
  the load and the write that follow it.
\<close>

lemma run_alone_in_memory:
  assumes "source cfg = InMemory u" and "lockRedis cfg a False acquired"
  shows "run rt cfg a acquired [body] [Acquire 0, Enter 0]
           \<lparr>holder = None, phases = [Queued], store = w\<rparr>
         = Some \<lparr>holder = None, phases = [Finished],
                 store = snd (lockMethod cfg a acquired (runBody rt cfg body) w)\<rparr>"
  using assms by (simp add: step_def lockMethod_def)

lemma run_alone_stored:
  assumes "source cfg \<noteq> InMemory (uniqueEventId (source cfg))"
    and "lockRedis cfg a False acquired"
    and "getAllData rt cfg w = Inr data" and "persisted (body data)"
  shows "run rt cfg a acquired [body] [Acquire 0, Enter 0, Loaded 0, Written 0]
           \<lparr>holder = None, phases = [Queued], store = w\<rparr>
         = Some \<lparr>holder = None, phases = [Finished],
                 store = snd (lockMethod cfg a acquired (runBody rt cfg body) w)\<rparr>"
  using assms
  by (cases "source cfg")
    (simp_all add: step_def lockMethod_def runBody_def inPlace_def Let_def)

lemmas sched_simps = step_def lockRedis_def getAllData_def update_def fileDoc_def unlocked_def
  holding_def setBody_def completed_def softFail_def thrown_def lookupProp_def Let_def
  assignOwn_def arrayIndex_def digitTable_def

text \<open>
  C1. The claim: the body of one mutation completes before the body of another on the
  same document begins. In the code, for a file-backed document whose file does not
  exist yet, \<open>set([], "a", 1)\<close> and \<open>set([], "b", 2)\<close> issued together reach a state
  in which the named lock is free and both bodies are loading; both then load the
  same snapshot \<open>{}\<close>, and after both writes the file holds the text of \<open>{b: 2}\<close>:
  the key \<open>a\<close> is lost.
\<close>

theorem C1_mutation_bodies_overlap:
  "run rt fileDoc unlocked acquired
       [setBody rt (SelList []) ''a'' (JNum 1), setBody rt (SelList []) ''b'' (JNum 2)]
       [Acquire 0, Enter 0, Acquire 1, Enter 1]
       \<lparr>holder = None, phases = [Queued, Queued], store = holding (JObj [])\<rparr>
     = Some \<lparr>holder = None, phases = [Loading, Loading], store = holding (JObj [])\<rparr>
   \<and> bodiesUnderWay \<lparr>holder = None, phases = [Loading, Loading], store = holding (JObj [])\<rparr>
       = 2
   \<and> run rt fileDoc unlocked acquired
       [setBody rt (SelList []) ''a'' (JNum 1), setBody rt (SelList []) ''b'' (JNum 2)]
       [Acquire 0, Enter 0, Acquire 1, Enter 1, Loaded 0, Loaded 1, Written 0, Written 1]
       \<lparr>holder = None, phases = [Queued, Queued], store = holding (JObj [])\<rparr>
     = Some \<lparr>holder = None, phases = [Finished, Finished],
             store = \<lparr>inMemory = JObj [],
                      files = (\<lambda>p. None)(''doc.json'' \<mapsto> stringify rt (JObj [(''b'', JNum 2)])),
                      redisKeys = (\<lambda>u. None)\<rparr>\<rparr>"
  by (simp add: sched_simps bodiesUnderWay_def)

end
